theory Spec2Isabelle
  imports Main
begin

section \<open>Disk layout suggestion (archinstall/lib/user_interaction/disk_conf.py)\<close>

subsection \<open>Value types of the disk module\<close>

text \<open>
  The planners of \<^verbatim>\<open>disk_conf.py\<close> build their result out of the value types of the
  \<^verbatim>\<open>disk\<close> module (Size, Unit, BDevice, PartitionModification, ...). The planners are
  translated from their source; the value types they construct are declared here with the
  fields the planners read and write.
\<close>

datatype Unit = B | KiB | MiB | GiB | TiB | Percent

text \<open>
  Modelled from the spec: the class \<^verbatim>\<open>disk.Size\<close>. It is
  \<^verbatim>\<open>{ value, unit, total reference (optional) }\<close>; the planners write
  \<^verbatim>\<open>Size(40, Unit.GiB)\<close> and \<^verbatim>\<open>Size(100, Unit.Percent, total_size=t)\<close>.
\<close>

datatype Size = Size int Unit "Size option"

text \<open>
  Modelled from the spec: the byte count of a Size. A byte-multiple unit scales the value;
  a Percent Size is the given percentage of its reference total,
  \<^verbatim>\<open>reference_total * percent / 100\<close>. A Percent Size is only ever built together
  with its reference total, so the equation for a missing reference only makes the
  function total.
\<close>

fun to_bytes :: "Size \<Rightarrow> int" where
  "to_bytes (Size v B _) = v"
| "to_bytes (Size v KiB _) = v * 1024"
| "to_bytes (Size v MiB _) = v * 1048576"
| "to_bytes (Size v GiB _) = v * 1073741824"
| "to_bytes (Size v TiB _) = v * 1099511627776"
| "to_bytes (Size v Percent (Some t)) = to_bytes t * v div 100"
| "to_bytes (Size v Percent None) = 0"

text \<open>
  Modelled from the spec: Size supports ordering, subtraction and minimum. Ordering
  compares byte counts; the difference is a signed byte count (the spec: the delta
  \<^verbatim>\<open>total_size - 20 GiB\<close> may be negative).
\<close>

definition Size_ge :: "Size \<Rightarrow> Size \<Rightarrow> bool" where
  "Size_ge a b = (to_bytes a \<ge> to_bytes b)"

definition Size_gt :: "Size \<Rightarrow> Size \<Rightarrow> bool" where
  "Size_gt a b = (to_bytes a > to_bytes b)"

definition Size_lt :: "Size \<Rightarrow> Size \<Rightarrow> bool" where
  "Size_lt a b = (to_bytes a < to_bytes b)"

definition Size_sub :: "Size \<Rightarrow> Size \<Rightarrow> Size" where
  "Size_sub a b = Size (to_bytes a - to_bytes b) B None"

text \<open>
  Python's builtin \<^verbatim>\<open>min(a, b)\<close>: the first argument unless the second is
  strictly smaller.
\<close>

definition py_min :: "Size \<Rightarrow> Size \<Rightarrow> Size" where
  "py_min a b = (if Size_lt b a then b else a)"

datatype FilesystemType = Btrfs | Ext4 | Xfs | F2fs | Ntfs | Fat32

datatype ModificationStatus = Create

datatype PartitionType = Primary

datatype PartitionFlag = Boot

datatype SubvolumeModification = SubvolumeModification string string

text \<open>
  Modelled from the spec: a device has a path and a total size; the planners read them as
  \<^verbatim>\<open>device.device_info.path\<close> and \<^verbatim>\<open>device.device_info.total_size\<close>.
\<close>

record DeviceInfo =
  path :: string
  total_size :: Size

record BDevice =
  device_info :: DeviceInfo

text \<open>
  Modelled from the spec: the classes \<^verbatim>\<open>disk.PartitionModification\<close> and
  \<^verbatim>\<open>disk.DeviceModification\<close>, with the keyword arguments of the planners as fields.
  The fields a constructor call of the source leaves out (\<^verbatim>\<open>mount_options\<close>,
  \<^verbatim>\<open>flags\<close>, \<^verbatim>\<open>btrfs_subvols\<close>) are empty lists: mount options are empty
  unless compression is requested, and subvolumes are optional.
\<close>

record PartitionModification =
  status :: ModificationStatus
  type_p :: PartitionType
  start :: Size
  length_p :: Size
  mountpoint :: "string option"
  fs_type :: FilesystemType
  mount_options :: "string list"
  flags :: "PartitionFlag list"
  btrfs_subvols :: "SubvolumeModification list"

record DeviceModification =
  device :: BDevice
  wipe :: bool
  partitions :: "PartitionModification list"

text \<open>
  Modelled from the spec: \<^verbatim>\<open>DeviceModification.add_partition\<close> appends to the ordered
  sequence of partitions; insertion order is the order on disk.
\<close>

definition add_partition :: "DeviceModification \<Rightarrow> PartitionModification \<Rightarrow> DeviceModification" where
  "add_partition dm p = dm\<lparr>partitions := partitions dm @ [p]\<rparr>"

subsection \<open>The prompting collaborator\<close>

text \<open>
  Every \<^verbatim>\<open>Menu(...).run()\<close> of the planners is a call to the external prompting
  collaborator. A call is identified by what it asks:
  \<^item> \<open>FilesystemMenu labels\<close>: "Select which filesystem your main partition should use",
    with the offered labels;
  \<^item> \<open>SubvolumesMenu\<close>: "Would you like to use BTRFS subvolumes with a default structure?";
  \<^item> \<open>CompressionMenu\<close>: "Would you like to use BTRFS compression?";
  \<^item> \<open>SeparateHomeMenu\<close>: "Would you like to create a separate partition for /home?";
  \<^item> \<open>CapacityMenu h r\<close>: the advisory "The selected drives do not have the minimum
    capacity required for an automatic suggestion", naming the two minimum capacities.

  The collaborator is a function from the call to the value of the selection; a planner
  returns the calls it made, in order, next to its result.
\<close>

datatype menu_call =
    FilesystemMenu "string list"
  | SubvolumesMenu
  | CompressionMenu
  | SeparateHomeMenu
  | CapacityMenu Size Size

type_synonym menu = "menu_call \<Rightarrow> string"

datatype error = KeyError | IndexError

definition yes :: string where
  "yes = ''yes''"

text \<open>\<^verbatim>\<open>has_uefi()\<close> is the boolean parameter \<open>uefi\<close> of every function below.\<close>

subsection \<open>Boot partition\<close>

definition boot_partition :: "bool \<Rightarrow> PartitionModification" where
  "boot_partition uefi =
     (let (start, size) =
            (if uefi then (Size 1 MiB None, Size 512 MiB None)
             else (Size 3 MiB None, Size 203 MiB None))
      in \<lparr>status = Create, type_p = Primary, start = start, length_p = size,
          mountpoint = Some ''/boot'', fs_type = Fat32, mount_options = [],
          flags = [Boot], btrfs_subvols = []\<rparr>)"

subsection \<open>Filesystem choice\<close>

definition ask_for_main_filesystem_format ::
  "menu \<Rightarrow> bool \<Rightarrow> menu_call list \<times> (error + FilesystemType)" where
  "ask_for_main_filesystem_format run advanced_options =
     (let options = [(''btrfs'', Btrfs), (''ext4'', Ext4), (''xfs'', Xfs), (''f2fs'', F2fs)]
                    @ (if advanced_options then [(''ntfs'', Ntfs)] else []);
          call = FilesystemMenu (map fst options)
      in ([call], case map_of options (run call) of
                    None \<Rightarrow> Inl KeyError
                  | Some fs \<Rightarrow> Inr fs))"

text \<open>
  The first step of both planners:
  \<^verbatim>\<open>if not filesystem_type: filesystem_type = ask_for_main_filesystem_format(advanced_options)\<close>.
\<close>

definition resolve_filesystem_type ::
  "menu \<Rightarrow> FilesystemType option \<Rightarrow> bool \<Rightarrow> menu_call list \<times> (error + FilesystemType)" where
  "resolve_filesystem_type run filesystem_type advanced_options =
     (case filesystem_type of
        None \<Rightarrow> ask_for_main_filesystem_format run advanced_options
      | Some fs \<Rightarrow> ([], Inr fs))"

subsection \<open>Single-disk planner\<close>

definition default_subvolumes :: "SubvolumeModification list" where
  "default_subvolumes =
     [SubvolumeModification ''@'' ''/'',
      SubvolumeModification ''@home'' ''/home'',
      SubvolumeModification ''@log'' ''/var/log'',
      SubvolumeModification ''@pkg'' ''/var/cache/pacman/pkg'',
      SubvolumeModification ''@.snapshots'' ''/.snapshots'']"

text \<open>
  \<^verbatim>\<open>root_partition.btrfs_subvols = subvolumes\<close> is an assignment to the object that
  \<^verbatim>\<open>add_partition\<close> appended last, so it shows in the list of the modification.
\<close>

definition set_last_btrfs_subvols ::
  "DeviceModification \<Rightarrow> SubvolumeModification list \<Rightarrow> DeviceModification" where
  "set_last_btrfs_subvols dm subvolumes =
     dm\<lparr>partitions := (partitions dm)
          [length (partitions dm) - 1 := (last (partitions dm))\<lparr>btrfs_subvols := subvolumes\<rparr>]\<rparr>"

definition suggest_single_disk_layout ::
  "bool \<Rightarrow> menu \<Rightarrow> BDevice \<Rightarrow> FilesystemType option \<Rightarrow> bool \<Rightarrow> bool option
     \<Rightarrow> menu_call list \<times> (error + DeviceModification)" where
  "suggest_single_disk_layout uefi run dev filesystem_type advanced_options separate_home =
     (case resolve_filesystem_type run filesystem_type advanced_options of
        (log0, Inl e) \<Rightarrow> (log0, Inl e)
      | (log0, Inr fs) \<Rightarrow>
          (let min_size_to_allow_home_part = Size 40 GiB None;
               root_partition_size = Size 20 GiB None;
               device_size_gib = total_size (device_info dev);
               (log1, using_subvolumes, compression) =
                 (if fs = Btrfs
                  then ([SubvolumesMenu, CompressionMenu],
                        run SubvolumesMenu = yes, run CompressionMenu = yes)
                  else ([], False, False));
               device_modification = \<lparr>device = dev, wipe = True, partitions = []\<rparr>;
               device_modification = add_partition device_modification (boot_partition uefi);
               (log2, using_home_partition) =
                 (if \<not> using_subvolumes
                  then (if Size_ge device_size_gib min_size_to_allow_home_part
                        then (case separate_home of
                                None \<Rightarrow> ([SeparateHomeMenu], run SeparateHomeMenu = yes)
                              | Some True \<Rightarrow> ([], True)
                              | Some False \<Rightarrow> ([], False))
                        else ([], False))
                  else ([], False));
               start_root = (if uefi then Size 513 MiB None else Size 206 MiB None);
               length_root =
                 (if using_subvolumes \<or> Size_lt device_size_gib min_size_to_allow_home_part
                     \<or> \<not> using_home_partition
                  then Size 100 Percent (Some (total_size (device_info dev)))
                  else py_min (total_size (device_info dev)) root_partition_size);
               root_partition =
                 \<lparr>status = Create, type_p = Primary, start = start_root, length_p = length_root,
                  mountpoint = (if \<not> using_subvolumes then Some ''/'' else None),
                  fs_type = fs,
                  mount_options = (if compression then [''compress=zstd''] else []),
                  flags = [], btrfs_subvols = []\<rparr>;
               device_modification = add_partition device_modification root_partition;
               device_modification =
                 (if using_subvolumes
                  then set_last_btrfs_subvols device_modification default_subvolumes
                  else if using_home_partition
                  then add_partition device_modification
                         \<lparr>status = Create, type_p = Primary,
                          start = length_p root_partition,
                          length_p = Size 100 Percent (Some (total_size (device_info dev))),
                          mountpoint = Some ''/home'',
                          fs_type = fs,
                          mount_options = (if compression then [''compress=zstd''] else []),
                          flags = [], btrfs_subvols = []\<rparr>
                  else device_modification)
           in (log0 @ log1 @ log2, Inr device_modification)))"

subsection \<open>Multi-disk planner\<close>

text \<open>
  Python's \<^verbatim>\<open>max(xs, key=f)\<close>: the first of the largest elements; the candidate is
  replaced only by a strictly larger one. On an empty list the builtin raises; the planner
  calls it on a non-empty list only.
\<close>

definition py_max :: "('a \<Rightarrow> Size) \<Rightarrow> 'a list \<Rightarrow> 'a option" where
  "py_max f xs =
     (case xs of
        [] \<Rightarrow> None
      | x # ys \<Rightarrow> Some (foldl (\<lambda>best y. if Size_gt (f y) (f best) then y else best) x ys))"

text \<open>
  Modelled from the spec: the identity of a device is its path. The source compares
  objects (\<^verbatim>\<open>device is not home_device\<close>) and uses them as dict keys; a value has no
  object identity, so both compare paths here. The two agree on every list that names no
  device twice. \<^verbatim>\<open>home_device\<close> may be \<^verbatim>\<open>None\<close>, which no device is.
\<close>

definition same_device :: "BDevice \<Rightarrow> BDevice \<Rightarrow> bool" where
  "same_device a b = (path (device_info a) = path (device_info b))"

definition is_not :: "BDevice \<Rightarrow> BDevice option \<Rightarrow> bool" where
  "is_not d home_device = (case home_device of None \<Rightarrow> True | Some h \<Rightarrow> \<not> same_device d h)"

text \<open>
  \<^verbatim>\<open>devices_delta[device] = delta\<close> on a dict, which keeps insertion order: a new key
  goes to the end, a key already present keeps its place and takes the new value.
\<close>

definition dict_set :: "(BDevice \<times> Size) list \<Rightarrow> BDevice \<Rightarrow> Size \<Rightarrow> (BDevice \<times> Size) list" where
  "dict_set d k v =
     (if list_ex (\<lambda>kv. same_device (fst kv) k) d
      then map (\<lambda>kv. if same_device (fst kv) k then (fst kv, v) else kv) d
      else d @ [(k, v)])"

definition find_home_device :: "BDevice list \<Rightarrow> BDevice option" where
  "find_home_device devices =
     (let min_home_partition_size = Size 40 GiB None;
          possible_devices =
            filter (\<lambda>x. Size_ge (total_size (device_info x)) min_home_partition_size) devices
      in if possible_devices \<noteq> []
         then py_max (\<lambda>d. total_size (device_info d)) possible_devices
         else None)"

definition devices_delta :: "BDevice list \<Rightarrow> BDevice option \<Rightarrow> (BDevice \<times> Size) list" where
  "devices_delta devices home_device =
     (let desired_root_partition_size = Size 20 GiB None
      in foldl (\<lambda>dd d. if is_not d home_device
                        then dict_set dd d (Size_sub (total_size (device_info d))
                                                     desired_root_partition_size)
                        else dd)
               [] devices)"

text \<open>
  \<^verbatim>\<open>sorted(devices_delta.items(), key=lambda x: x[1])\<close> is a stable sort on the
  delta, which Size orders by byte count; \<^verbatim>\<open>sorted_delta[0][0]\<close> raises IndexError
  on the empty list.
\<close>

definition find_root_device :: "BDevice list \<Rightarrow> BDevice option \<Rightarrow> error + BDevice" where
  "find_root_device devices home_device =
     (let sorted_delta = sort_key (\<lambda>x. to_bytes (snd x)) (devices_delta devices home_device)
      in case sorted_delta of
           [] \<Rightarrow> Inl IndexError
         | x # _ \<Rightarrow> Inr (fst x))"

definition suggest_multi_disk_layout ::
  "bool \<Rightarrow> menu \<Rightarrow> BDevice list \<Rightarrow> FilesystemType option \<Rightarrow> bool
     \<Rightarrow> menu_call list \<times> (error + DeviceModification list)" where
  "suggest_multi_disk_layout uefi run devices filesystem_type advanced_options =
     (if devices = [] then ([], Inr [])
      else
       (let min_home_partition_size = Size 40 GiB None;
            desired_root_partition_size = Size 20 GiB None
        in case resolve_filesystem_type run filesystem_type advanced_options of
             (log0, Inl e) \<Rightarrow> (log0, Inl e)
           | (log0, Inr fs) \<Rightarrow>
               (let home_device = find_home_device devices
                in case find_root_device devices home_device of
                     Inl e \<Rightarrow> (log0, Inl e)
                   | Inr root_device \<Rightarrow>
                       (case home_device of
                          None \<Rightarrow>
                            (log0 @ [CapacityMenu min_home_partition_size
                                                  desired_root_partition_size],
                             Inr [])
                        | Some home_dev \<Rightarrow>
                            (let (log1, compression) =
                                   (if fs = Btrfs
                                    then ([CompressionMenu], run CompressionMenu = yes)
                                    else ([], False));
                                 root_device_modification =
                                   \<lparr>device = root_device, wipe = True, partitions = []\<rparr>;
                                 home_device_modification =
                                   \<lparr>device = home_dev, wipe = True, partitions = []\<rparr>;
                                 root_device_modification =
                                   add_partition root_device_modification (boot_partition uefi);
                                 root_device_modification =
                                   add_partition root_device_modification
                                     \<lparr>status = Create, type_p = Primary,
                                      start = (if uefi then Size 513 MiB None
                                               else Size 206 MiB None),
                                      length_p = Size 100 Percent
                                                   (Some (total_size (device_info root_device))),
                                      mountpoint = Some ''/'',
                                      fs_type = fs,
                                      mount_options =
                                        (if compression then [''compress=zstd''] else []),
                                      flags = [], btrfs_subvols = []\<rparr>;
                                 home_device_modification =
                                   add_partition home_device_modification
                                     \<lparr>status = Create, type_p = Primary,
                                      start = Size 1 MiB None,
                                      length_p = Size 100 Percent
                                                   (Some (total_size (device_info home_dev))),
                                      mountpoint = Some ''/home'',
                                      fs_type = fs,
                                      mount_options =
                                        (if compression then [''compress=zstd''] else []),
                                      flags = [], btrfs_subvols = []\<rparr>
                             in (log0 @ log1,
                                 Inr [root_device_modification, home_device_modification]))))))"

section \<open>Properties\<close>

subsection \<open>Python's max and sorted\<close>

lemma foldl_max_first_largest:
  fixes key :: "'a \<Rightarrow> int"
  defines "g \<equiv> (\<lambda>best y. if key y > key best then y else best)"
  shows "foldl g b ys \<in> set (b # ys)
       \<and> (\<forall>y\<in>set (b # ys). key y \<le> key (foldl g b ys))
       \<and> (\<forall>y\<in>set (takeWhile (\<lambda>y. y \<noteq> foldl g b ys) (b # ys)). key y < key (foldl g b ys))"
proof (induction ys rule: rev_induct)
  case Nil
  show ?case by simp
next
  case (snoc y ys)
  let ?m = "foldl g b ys"
  have in_set: "?m \<in> set (b # ys)" and ub: "\<forall>z\<in>set (b # ys). key z \<le> key ?m"
    and strict: "\<forall>z\<in>set (takeWhile (\<lambda>z. z \<noteq> ?m) (b # ys)). key z < key ?m"
    using snoc.IH by blast+
  show ?case
  proof (cases "key y > key ?m")
    case True
    then have res: "foldl g b (ys @ [y]) = y" by (simp add: g_def)
    have "\<forall>z\<in>set (b # ys). key z < key y" using ub True by fastforce
    moreover have "set (takeWhile (\<lambda>z. z \<noteq> y) (b # ys @ [y])) \<subseteq> set (b # ys)"
    proof
      fix z assume "z \<in> set (takeWhile (\<lambda>z. z \<noteq> y) (b # ys @ [y]))"
      then have "z \<in> set (b # ys @ [y])" and "z \<noteq> y"
        by (auto dest: set_takeWhileD)
      then show "z \<in> set (b # ys)" by auto
    qed
    ultimately show ?thesis unfolding res by (auto simp: less_imp_le)
  next
    case False
    then have res: "foldl g b (ys @ [y]) = ?m" by (simp add: g_def)
    have tw: "takeWhile (\<lambda>z. z \<noteq> ?m) ((b # ys) @ [y]) = takeWhile (\<lambda>z. z \<noteq> ?m) (b # ys)"
      using in_set by (intro takeWhile_append1[where x="?m"]) auto
    show ?thesis unfolding res using in_set ub strict False tw by auto
  qed
qed

lemma py_max_first_largest:
  assumes "py_max f xs = Some m"
  shows "m \<in> set xs
       \<and> (\<forall>y\<in>set xs. to_bytes (f y) \<le> to_bytes (f m))
       \<and> (\<forall>y\<in>set (takeWhile (\<lambda>y. y \<noteq> m) xs). to_bytes (f y) < to_bytes (f m))"
proof (cases xs)
  case Nil
  with assms show ?thesis by (simp add: py_max_def)
next
  case (Cons b ys)
  with assms have m: "m = foldl (\<lambda>best y. if to_bytes (f y) > to_bytes (f best) then y else best) b ys"
    by (simp add: py_max_def Size_gt_def)
  show ?thesis unfolding m Cons
    by (rule foldl_max_first_largest[where key="\<lambda>d. to_bytes (f d)"])
qed

lemma py_max_nonempty: "xs \<noteq> [] \<Longrightarrow> \<exists>m. py_max f xs = Some m"
  by (cases xs) (simp_all add: py_max_def)

lemma hd_sort_key_first_smallest:
  fixes key :: "'a \<Rightarrow> int"
  assumes "sort_key key xs = r # rest"
  shows "r \<in> set xs
       \<and> (\<forall>y\<in>set xs. key r \<le> key y)
       \<and> (\<forall>y\<in>set (takeWhile (\<lambda>y. y \<noteq> r) xs). key r < key y)"
  using assms
proof (induction xs arbitrary: r rest)
  case Nil
  then show ?case by simp
next
  case (Cons x xs)
  show ?case
  proof (cases "sort_key key xs")
    case Nil
    then have "xs = []" by (metis length_sort list.size(3) length_0_conv)
    with Cons.prems show ?thesis by simp
  next
    case (Cons r' rest')
    note IH = Cons.IH[OF Cons]
    show ?thesis
    proof (cases "key x \<le> key r'")
      case True
      with Cons.prems Cons have "r = x" by simp
      with True IH show ?thesis by fastforce
    next
      case False
      with Cons.prems Cons have r: "r = r'" by simp
      with False have "r \<noteq> x" by auto
      with False IH r show ?thesis by auto
    qed
  qed
qed

lemma sort_key_Nil_iff: "sort_key key xs = [] \<longleftrightarrow> xs = []"
  by (metis length_sort list.size(3) length_0_conv)

subsection \<open>The delta dictionary and the root candidates\<close>

lemma dict_set_fresh:
  "\<forall>kv\<in>set dd. \<not> same_device (fst kv) k \<Longrightarrow> dict_set dd k v = dd @ [(k, v)]"
  by (simp add: dict_set_def list_ex_iff)

lemma foldl_delta_distinct:
  assumes "distinct (map (\<lambda>d. path (device_info d)) ds)"
    and "\<forall>kv\<in>set acc. \<forall>d\<in>set ds. \<not> same_device (fst kv) d"
  shows "foldl (\<lambda>dd d. if P d then dict_set dd d (h d) else dd) acc ds
         = acc @ map (\<lambda>d. (d, h d)) (filter P ds)"
  using assms
proof (induction ds arbitrary: acc)
  case Nil
  show ?case by simp
next
  case (Cons d ds)
  have fresh: "\<forall>kv\<in>set acc. \<not> same_device (fst kv) d"
    using Cons.prems(2) by simp
  have dist: "distinct (map (\<lambda>d. path (device_info d)) ds)"
    using Cons.prems(1) by simp
  have d_new: "\<forall>e\<in>set ds. \<not> same_device d e"
    using Cons.prems(1) by (auto simp: same_device_def)
  show ?case
  proof (cases "P d")
    case True
    have "\<forall>kv\<in>set (acc @ [(d, h d)]). \<forall>e\<in>set ds. \<not> same_device (fst kv) e"
      using Cons.prems(2) d_new by auto
    from Cons.IH[OF dist this] True fresh show ?thesis
      by (simp add: dict_set_fresh)
  next
    case False
    have "\<forall>kv\<in>set acc. \<forall>e\<in>set ds. \<not> same_device (fst kv) e"
      using Cons.prems(2) by simp
    from Cons.IH[OF dist this] False show ?thesis by simp
  qed
qed

lemma devices_delta_distinct:
  assumes "distinct (map (\<lambda>d. path (device_info d)) devices)"
  shows "devices_delta devices home_device
         = map (\<lambda>d. (d, Size_sub (total_size (device_info d)) (Size 20 GiB None)))
               (filter (\<lambda>d. is_not d home_device) devices)"
  unfolding devices_delta_def Let_def
  using foldl_delta_distinct[OF assms, of "[]"] by simp

lemma insort_key_map:
  "insort_key key (h x) (map h ys) = map h (insort_key (\<lambda>y. key (h y)) x ys)"
  by (induction ys) simp_all

lemma sort_key_map:
  "sort_key key (map h xs) = map h (sort_key (\<lambda>y. key (h y)) xs)"
  by (induction xs) (simp_all add: insort_key_map)

lemma find_root_device_distinct:
  assumes "distinct (map (\<lambda>d. path (device_info d)) devices)"
  shows "find_root_device devices home_device =
     (case sort_key (\<lambda>d. to_bytes (total_size (device_info d)) - to_bytes (Size 20 GiB None))
                    (filter (\<lambda>d. is_not d home_device) devices) of
        [] \<Rightarrow> Inl IndexError
      | r # _ \<Rightarrow> Inr r)"
  unfolding find_root_device_def Let_def devices_delta_distinct[OF assms] sort_key_map
  by (simp add: Size_sub_def split: list.splits)

lemma is_not_filter_distinct:
  assumes "distinct (map (\<lambda>d. path (device_info d)) devices)" and "h \<in> set devices"
  shows "filter (\<lambda>d. is_not d (Some h)) devices = filter (\<lambda>d. d \<noteq> h) devices"
proof (rule filter_cong[OF refl])
  fix d assume "d \<in> set devices"
  with assms have "path (device_info d) = path (device_info h) \<longleftrightarrow> d = h"
    by (auto simp: distinct_map inj_on_def)
  then show "is_not d (Some h) = (d \<noteq> h)"
    by (simp add: is_not_def same_device_def)
qed

lemma others_nonempty:
  assumes "2 \<le> length devices" and "distinct devices"
  shows "filter (\<lambda>d. d \<noteq> h) devices \<noteq> []"
proof
  assume "filter (\<lambda>d. d \<noteq> h) devices = []"
  then have "set devices \<subseteq> {h}" by (auto simp: filter_empty_conv)
  then have "card (set devices) \<le> 1" by (metis card_mono finite.emptyI finite.insertI card.empty card.insert empty_iff One_nat_def)
  with assms show False by (simp add: distinct_card)
qed

lemma find_home_device_pool:
  "find_home_device devices =
     py_max (\<lambda>d. total_size (device_info d))
       (filter (\<lambda>d. to_bytes (total_size (device_info d)) \<ge> to_bytes (Size 40 GiB None)) devices)"
  by (simp add: find_home_device_def Let_def Size_ge_def py_max_def)

lemma takeWhile_filter_neq:
  "P h \<Longrightarrow> takeWhile (\<lambda>d. d \<noteq> h) (filter P xs) = filter P (takeWhile (\<lambda>d. d \<noteq> h) xs)"
  by (induction xs) auto

subsection \<open>The results of the multi-disk planner\<close>

lemma resolve_filesystem_type_log:
  assumes "resolve_filesystem_type run filesystem_type advanced_options = (log0, r)"
  shows "log0 = [] \<or> (\<exists>labels. log0 = [FilesystemMenu labels])"
  using assms
  by (auto simp: resolve_filesystem_type_def ask_for_main_filesystem_format_def Let_def
           split: option.splits)

lemma multi_success:
  assumes "devices \<noteq> []"
    and "resolve_filesystem_type run filesystem_type advanced_options = (log0, Inr fs)"
    and "find_home_device devices = Some h"
    and "find_root_device devices (Some h) = Inr r"
  shows "suggest_multi_disk_layout uefi run devices filesystem_type advanced_options =
      (log0 @ (if fs = Btrfs then [CompressionMenu] else []),
       Inr [\<lparr>device = r, wipe = True,
             partitions =
               [boot_partition uefi,
                \<lparr>status = Create, type_p = Primary,
                 start = (if uefi then Size 513 MiB None else Size 206 MiB None),
                 length_p = Size 100 Percent (Some (total_size (device_info r))),
                 mountpoint = Some ''/'', fs_type = fs,
                 mount_options = (if fs = Btrfs \<and> run CompressionMenu = yes
                                  then [''compress=zstd''] else []),
                 flags = [], btrfs_subvols = []\<rparr>]\<rparr>,
            \<lparr>device = h, wipe = True,
             partitions =
               [\<lparr>status = Create, type_p = Primary,
                 start = Size 1 MiB None,
                 length_p = Size 100 Percent (Some (total_size (device_info h))),
                 mountpoint = Some ''/home'', fs_type = fs,
                 mount_options = (if fs = Btrfs \<and> run CompressionMenu = yes
                                  then [''compress=zstd''] else []),
                 flags = [], btrfs_subvols = []\<rparr>]\<rparr>])"
  using assms by (simp add: suggest_multi_disk_layout_def Let_def add_partition_def)

lemma multi_no_home:
  assumes "devices \<noteq> []"
    and "resolve_filesystem_type run filesystem_type advanced_options = (log0, Inr fs)"
    and "find_home_device devices = None"
    and "find_root_device devices None = Inr r"
  shows "suggest_multi_disk_layout uefi run devices filesystem_type advanced_options =
      (log0 @ [CapacityMenu (Size 40 GiB None) (Size 20 GiB None)], Inr [])"
  using assms by (simp add: suggest_multi_disk_layout_def Let_def)

lemma multi_no_root:
  assumes "devices \<noteq> []"
    and "resolve_filesystem_type run filesystem_type advanced_options = (log0, Inr fs)"
    and "find_root_device devices (find_home_device devices) = Inl e"
  shows "suggest_multi_disk_layout uefi run devices filesystem_type advanced_options = (log0, Inl e)"
  using assms by (simp add: suggest_multi_disk_layout_def Let_def)

lemma multi_result_cases:
  assumes "snd (suggest_multi_disk_layout uefi run devices filesystem_type advanced_options) = Inr mods"
  shows "mods = [] \<or>
     (\<exists>log0 fs h r. devices \<noteq> []
        \<and> resolve_filesystem_type run filesystem_type advanced_options = (log0, Inr fs)
        \<and> find_home_device devices = Some h
        \<and> find_root_device devices (Some h) = Inr r
        \<and> mods \<noteq> [])"
  using assms
  by (auto simp: suggest_multi_disk_layout_def Let_def
           split: if_splits prod.splits sum.splits option.splits)

lemma dict_set_not_Nil: "dict_set dd k v \<noteq> []"
  by (cases dd) (simp_all add: dict_set_def)

lemma foldl_dict_set_not_Nil:
  "acc \<noteq> [] \<or> (\<exists>d\<in>set ds. P d) \<Longrightarrow>
   foldl (\<lambda>dd d. if P d then dict_set dd d (h d) else dd) acc ds \<noteq> []"
  by (induction ds arbitrary: acc) (auto simp: dict_set_not_Nil)

lemma find_root_device_no_home:
  assumes "devices \<noteq> []"
  shows "\<exists>r. find_root_device devices None = Inr r"
proof -
  have "devices_delta devices None \<noteq> []"
    unfolding devices_delta_def Let_def
    using assms by (intro foldl_dict_set_not_Nil) (cases devices, auto simp: is_not_def)
  then have "sort_key (\<lambda>x. to_bytes (snd x)) (devices_delta devices None) \<noteq> []"
    by (simp add: sort_key_Nil_iff)
  then show ?thesis
    by (auto simp: find_root_device_def Let_def split: list.splits)
qed

lemma find_home_device_None_iff:
  "find_home_device devices = None \<longleftrightarrow>
   (\<forall>d\<in>set devices. to_bytes (total_size (device_info d)) < to_bytes (Size 40 GiB None))"
proof -
  let ?pool = "filter (\<lambda>d. to_bytes (total_size (device_info d)) \<ge> to_bytes (Size 40 GiB None)) devices"
  have "find_home_device devices = None \<longleftrightarrow> ?pool = []"
    unfolding find_home_device_pool by (cases ?pool) (simp_all add: py_max_def)
  then show ?thesis by (auto simp: filter_empty_conv not_le)
qed

subsection \<open>Device selection of the multi-disk planner\<close>

text \<open>
  C1. For a list of two or more devices, none listed twice, the multi-disk planner selects
  as home device the largest device among those of at least 40 GiB (the first-listed of
  the largest; none, and an empty result, when no device reaches 40 GiB), and as root
  device, among all devices except the home device, the one with the smallest signed delta
  \<open>total_size - 20 GiB\<close>, the first-listed among equal deltas.
\<close>

theorem multi_disk_device_selection:
  assumes "2 \<le> length devices"
    and "distinct (map (\<lambda>d. path (device_info d)) devices)"
    and "resolve_filesystem_type run filesystem_type advanced_options = (log0, Inr fs)"
  shows "(filter (\<lambda>d. to_bytes (total_size (device_info d)) \<ge> to_bytes (Size 40 GiB None)) devices = []
            \<longrightarrow> find_home_device devices = None
                \<and> snd (suggest_multi_disk_layout uefi run devices filesystem_type advanced_options) = Inr [])
       \<and> (filter (\<lambda>d. to_bytes (total_size (device_info d)) \<ge> to_bytes (Size 40 GiB None)) devices \<noteq> []
            \<longrightarrow> (\<exists>rm hm.
                  snd (suggest_multi_disk_layout uefi run devices filesystem_type advanced_options)
                    = Inr [rm, hm]
                \<and> find_home_device devices = Some (device hm)
                \<and> device hm \<in> set devices
                \<and> to_bytes (total_size (device_info (device hm))) \<ge> to_bytes (Size 40 GiB None)
                \<and> (\<forall>d\<in>set devices.
                      to_bytes (total_size (device_info d)) \<ge> to_bytes (Size 40 GiB None) \<longrightarrow>
                      to_bytes (total_size (device_info d))
                        \<le> to_bytes (total_size (device_info (device hm))))
                \<and> (\<forall>d\<in>set (takeWhile (\<lambda>d. d \<noteq> device hm) devices).
                      to_bytes (total_size (device_info d)) \<ge> to_bytes (Size 40 GiB None) \<longrightarrow>
                      to_bytes (total_size (device_info d))
                        < to_bytes (total_size (device_info (device hm))))
                \<and> device rm \<in> set devices \<and> device rm \<noteq> device hm
                \<and> (\<forall>d\<in>set devices. d \<noteq> device hm \<longrightarrow>
                      to_bytes (total_size (device_info (device rm))) - to_bytes (Size 20 GiB None)
                        \<le> to_bytes (total_size (device_info d)) - to_bytes (Size 20 GiB None))
                \<and> (\<forall>d\<in>set (takeWhile (\<lambda>d. d \<noteq> device rm) devices). d \<noteq> device hm \<longrightarrow>
                      to_bytes (total_size (device_info (device rm))) - to_bytes (Size 20 GiB None)
                        < to_bytes (total_size (device_info d)) - to_bytes (Size 20 GiB None))))"
proof -
  let ?big = "\<lambda>d. to_bytes (total_size (device_info d)) \<ge> to_bytes (Size 40 GiB None)"
  let ?pool = "filter ?big devices"
  let ?delta = "\<lambda>d. to_bytes (total_size (device_info d)) - to_bytes (Size 20 GiB None)"
  from assms(1) have ne: "devices \<noteq> []" by auto
  from assms(2) have dist: "distinct devices" by (simp add: distinct_map)
  have empty: "find_home_device devices = None
      \<and> snd (suggest_multi_disk_layout uefi run devices filesystem_type advanced_options) = Inr []"
    if pool_empty: "?pool = []"
  proof -
    from pool_empty have none: "find_home_device devices = None"
      by (simp add: find_home_device_pool py_max_def)
    obtain r where "find_root_device devices None = Inr r"
      using find_root_device_no_home[OF ne] by blast
    from multi_no_home[OF ne assms(3) none this] none show ?thesis by simp
  qed
  have nonempty: "\<exists>rm hm.
        snd (suggest_multi_disk_layout uefi run devices filesystem_type advanced_options) = Inr [rm, hm]
      \<and> find_home_device devices = Some (device hm)
      \<and> device hm \<in> set devices \<and> ?big (device hm)
      \<and> (\<forall>d\<in>set devices. ?big d \<longrightarrow>
            to_bytes (total_size (device_info d)) \<le> to_bytes (total_size (device_info (device hm))))
      \<and> (\<forall>d\<in>set (takeWhile (\<lambda>d. d \<noteq> device hm) devices). ?big d \<longrightarrow>
            to_bytes (total_size (device_info d)) < to_bytes (total_size (device_info (device hm))))
      \<and> device rm \<in> set devices \<and> device rm \<noteq> device hm
      \<and> (\<forall>d\<in>set devices. d \<noteq> device hm \<longrightarrow> ?delta (device rm) \<le> ?delta d)
      \<and> (\<forall>d\<in>set (takeWhile (\<lambda>d. d \<noteq> device rm) devices). d \<noteq> device hm \<longrightarrow>
            ?delta (device rm) < ?delta d)"
    if pool_ne: "?pool \<noteq> []"
  proof -
    obtain h where h: "find_home_device devices = Some h"
      using py_max_nonempty[OF pool_ne] by (auto simp: find_home_device_pool)
    then have hmax: "py_max (\<lambda>d. total_size (device_info d)) ?pool = Some h"
      by (simp add: find_home_device_pool)
    note H = py_max_first_largest[OF hmax]
    from H have h_in: "h \<in> set devices" and h_big: "?big h" by auto
    from H have h_ub: "\<forall>d\<in>set devices. ?big d \<longrightarrow>
        to_bytes (total_size (device_info d)) \<le> to_bytes (total_size (device_info h))"
      by auto
    have tw_pool: "takeWhile (\<lambda>d. d \<noteq> h) ?pool = filter ?big (takeWhile (\<lambda>d. d \<noteq> h) devices)"
      using h_big by (rule takeWhile_filter_neq)
    from H have h_first: "\<forall>d\<in>set (takeWhile (\<lambda>d. d \<noteq> h) devices). ?big d \<longrightarrow>
        to_bytes (total_size (device_info d)) < to_bytes (total_size (device_info h))"
      unfolding tw_pool by auto
    let ?others = "filter (\<lambda>d. d \<noteq> h) devices"
    have others: "filter (\<lambda>d. is_not d (Some h)) devices = ?others"
      by (rule is_not_filter_distinct[OF assms(2) h_in])
    have "?others \<noteq> []" by (rule others_nonempty[OF assms(1) dist])
    then obtain r rest where srt: "sort_key ?delta ?others = r # rest"
      by (cases "sort_key ?delta ?others") (simp_all add: sort_key_Nil_iff)
    then have root: "find_root_device devices (Some h) = Inr r"
      by (simp add: find_root_device_distinct[OF assms(2)] others)
    note R = hd_sort_key_first_smallest[OF srt]
    from R have r_in: "r \<in> set devices" and r_ne: "r \<noteq> h" by auto
    from R have r_lb: "\<forall>d\<in>set devices. d \<noteq> h \<longrightarrow> ?delta r \<le> ?delta d" by auto
    have tw_others: "takeWhile (\<lambda>d. d \<noteq> r) ?others = filter (\<lambda>d. d \<noteq> h) (takeWhile (\<lambda>d. d \<noteq> r) devices)"
      using r_ne by (rule takeWhile_filter_neq)
    from R have r_first: "\<forall>d\<in>set (takeWhile (\<lambda>d. d \<noteq> r) devices). d \<noteq> h \<longrightarrow> ?delta r < ?delta d"
      unfolding tw_others by auto
    from multi_success[OF ne assms(3) h root, of uefi]
    obtain rm hm where res: "snd (suggest_multi_disk_layout uefi run devices filesystem_type advanced_options) = Inr [rm, hm]"
      and rm: "device rm = r" and hm: "device hm = h"
      by simp
    show ?thesis
      using res h h_in h_big h_ub h_first r_in r_ne r_lb r_first unfolding rm[symmetric] hm[symmetric]
      by blast
  qed
  from empty nonempty show ?thesis by blast
qed

theorem multi_disk_device_selection_witness:
  "2 \<le> length [\<lparr>device_info = \<lparr>path = ''/dev/sda'', total_size = Size 10 GiB None\<rparr>\<rparr>,
                 \<lparr>device_info = \<lparr>path = ''/dev/sdb'', total_size = Size 45 GiB None\<rparr>\<rparr>,
                 \<lparr>device_info = \<lparr>path = ''/dev/sdc'', total_size = Size 60 GiB None\<rparr>\<rparr>]
   \<and> distinct (map (\<lambda>d. path (device_info d)) [\<lparr>device_info = \<lparr>path = ''/dev/sda'', total_size = Size 10 GiB None\<rparr>\<rparr>,
                 \<lparr>device_info = \<lparr>path = ''/dev/sdb'', total_size = Size 45 GiB None\<rparr>\<rparr>,
                 \<lparr>device_info = \<lparr>path = ''/dev/sdc'', total_size = Size 60 GiB None\<rparr>\<rparr>])
   \<and> resolve_filesystem_type (\<lambda>c. ''no'') (Some Ext4) False = ([], Inr Ext4)
   \<and> (\<exists>rm hm.
         snd (suggest_multi_disk_layout False (\<lambda>c. ''no'') [\<lparr>device_info = \<lparr>path = ''/dev/sda'', total_size = Size 10 GiB None\<rparr>\<rparr>,
                 \<lparr>device_info = \<lparr>path = ''/dev/sdb'', total_size = Size 45 GiB None\<rparr>\<rparr>,
                 \<lparr>device_info = \<lparr>path = ''/dev/sdc'', total_size = Size 60 GiB None\<rparr>\<rparr>] (Some Ext4) False) = Inr [rm, hm]
       \<and> device hm = \<lparr>device_info = \<lparr>path = ''/dev/sdc'', total_size = Size 60 GiB None\<rparr>\<rparr>
       \<and> device rm = \<lparr>device_info = \<lparr>path = ''/dev/sda'', total_size = Size 10 GiB None\<rparr>\<rparr>)"
proof -
  let ?D = "[\<lparr>device_info = \<lparr>path = ''/dev/sda'', total_size = Size 10 GiB None\<rparr>\<rparr>,
                 \<lparr>device_info = \<lparr>path = ''/dev/sdb'', total_size = Size 45 GiB None\<rparr>\<rparr>,
                 \<lparr>device_info = \<lparr>path = ''/dev/sdc'', total_size = Size 60 GiB None\<rparr>\<rparr>]"
  have l: "2 \<le> length ?D" by simp
  have d: "distinct (map (\<lambda>d. path (device_info d)) ?D)" by simp
  have h: "resolve_filesystem_type (\<lambda>c. ''no'') (Some Ext4) False = ([], Inr Ext4)"
    by (simp add: resolve_filesystem_type_def)
  have pool: "filter (\<lambda>d. to_bytes (total_size (device_info d)) \<ge> to_bytes (Size 40 GiB None)) ?D \<noteq> []"
    by simp
  have home: "find_home_device ?D
      = Some \<lparr>device_info = \<lparr>path = ''/dev/sdc'', total_size = Size 60 GiB None\<rparr>\<rparr>"
    by (simp add: find_home_device_def py_max_def Size_ge_def Size_gt_def)
  from multi_disk_device_selection[OF l d h, of False, THEN conjunct2, THEN mp, OF pool]
  obtain rm hm where
    res: "snd (suggest_multi_disk_layout False (\<lambda>c. ''no'') ?D (Some Ext4) False) = Inr [rm, hm]"
    and hm: "find_home_device ?D = Some (device hm)"
    and rm_in: "device rm \<in> set ?D"
    and rm_ne: "device rm \<noteq> device hm"
    and rm_min: "\<forall>d\<in>set ?D. d \<noteq> device hm \<longrightarrow>
                      to_bytes (total_size (device_info (device rm))) - to_bytes (Size 20 GiB None)
                        \<le> to_bytes (total_size (device_info d)) - to_bytes (Size 20 GiB None)"
    by (elim exE conjE)
  from hm home have hm_eq:
    "device hm = \<lparr>device_info = \<lparr>path = ''/dev/sdc'', total_size = Size 60 GiB None\<rparr>\<rparr>"
    by simp
  from rm_in rm_ne rm_min have rm_eq:
    "device rm = \<lparr>device_info = \<lparr>path = ''/dev/sda'', total_size = Size 10 GiB None\<rparr>\<rparr>"
    unfolding hm_eq by auto
  from l d h res hm_eq rm_eq show ?thesis by blast
qed

subsection \<open>Totality of the root selection\<close>

lemma find_root_device_total:
  assumes "2 \<le> length devices"
    and "distinct (map (\<lambda>d. path (device_info d)) devices)"
  shows "\<exists>r. find_root_device devices (find_home_device devices) = Inr r"
proof (cases "find_home_device devices")
  case None
  from assms(1) have "devices \<noteq> []" by auto
  from find_root_device_no_home[OF this] None show ?thesis by simp
next
  case (Some h)
  then have "py_max (\<lambda>d. total_size (device_info d))
      (filter (\<lambda>d. to_bytes (total_size (device_info d)) \<ge> to_bytes (Size 40 GiB None)) devices)
      = Some h"
    by (simp only: find_home_device_pool)
  from py_max_first_largest[OF this] have "h \<in> set devices"
    by simp
  then have others: "filter (\<lambda>d. is_not d (Some h)) devices = filter (\<lambda>d. d \<noteq> h) devices"
    by (rule is_not_filter_distinct[OF assms(2)])
  from assms(2) have "distinct devices" by (simp add: distinct_map)
  from others_nonempty[OF assms(1) this]
  have "filter (\<lambda>d. d \<noteq> h) devices \<noteq> []" .
  then show ?thesis
    unfolding Some find_root_device_distinct[OF assms(2)] others
    by (simp add: sort_key_Nil_iff split: list.splits)
qed

lemma multi_disk_returns:
  assumes "devices \<noteq> []"
    and "resolve_filesystem_type run filesystem_type advanced_options = (log0, Inr fs)"
    and "find_root_device devices (find_home_device devices) = Inr r"
  shows "\<exists>mods. snd (suggest_multi_disk_layout uefi run devices filesystem_type advanced_options) = Inr mods"
proof (cases "find_home_device devices")
  case None
  with assms(3) have "find_root_device devices None = Inr r" by simp
  from multi_no_home[OF assms(1,2) None this, of uefi] show ?thesis by simp
next
  case (Some h)
  with assms(3) have "find_root_device devices (Some h) = Inr r" by simp
  from multi_success[OF assms(1,2) Some this, of uefi] show ?thesis by simp
qed

subsection \<open>Devices below the home threshold\<close>

text \<open>
  C7. For a list of two or more devices that are all below 40 GiB, the multi-disk planner
  returns the empty list, not an error, and its calls to the prompting collaborator are
  the filesystem question (when no filesystem type was given) followed by one capacity
  advisory: exactly one capacity-advisory call.
\<close>

theorem multi_disk_all_small_advisory:
  assumes "2 \<le> length devices"
    and "\<forall>d\<in>set devices. to_bytes (total_size (device_info d)) < to_bytes (Size 40 GiB None)"
    and "resolve_filesystem_type run filesystem_type advanced_options = (log0, Inr fs)"
  shows "snd (suggest_multi_disk_layout uefi run devices filesystem_type advanced_options) = Inr []
       \<and> fst (suggest_multi_disk_layout uefi run devices filesystem_type advanced_options)
           = log0 @ [CapacityMenu (Size 40 GiB None) (Size 20 GiB None)]
       \<and> length (filter (\<lambda>c. case c of CapacityMenu h r \<Rightarrow> True | _ \<Rightarrow> False)
                  (fst (suggest_multi_disk_layout uefi run devices filesystem_type advanced_options))) = 1"
proof -
  from assms(1) have ne: "devices \<noteq> []" by auto
  from assms(2) have none: "find_home_device devices = None"
    by (simp add: find_home_device_None_iff)
  obtain r where "find_root_device devices None = Inr r"
    using find_root_device_no_home[OF ne] by blast
  note res = multi_no_home[OF ne assms(3) none this, of uefi]
  from resolve_filesystem_type_log[OF assms(3)]
  have "filter (\<lambda>c. case c of CapacityMenu h r \<Rightarrow> True | _ \<Rightarrow> False) log0 = []"
    by auto
  with res show ?thesis by simp
qed

theorem multi_disk_all_small_advisory_witness:
  "2 \<le> length [\<lparr>device_info = \<lparr>path = ''/dev/sda'', total_size = Size 10 GiB None\<rparr>\<rparr>,
                 \<lparr>device_info = \<lparr>path = ''/dev/sdb'', total_size = Size 30 GiB None\<rparr>\<rparr>]
   \<and> to_bytes (total_size (device_info
         \<lparr>device_info = \<lparr>path = ''/dev/sda'', total_size = Size 10 GiB None\<rparr>\<rparr>))
       < to_bytes (Size 40 GiB None)
   \<and> to_bytes (total_size (device_info
         \<lparr>device_info = \<lparr>path = ''/dev/sdb'', total_size = Size 30 GiB None\<rparr>\<rparr>))
       < to_bytes (Size 40 GiB None)
   \<and> resolve_filesystem_type (\<lambda>c. ''ext4'') None False
        = ([FilesystemMenu [''btrfs'', ''ext4'', ''xfs'', ''f2fs'']], Inr Ext4)
   \<and> suggest_multi_disk_layout True (\<lambda>c. ''ext4'')
        [\<lparr>device_info = \<lparr>path = ''/dev/sda'', total_size = Size 10 GiB None\<rparr>\<rparr>,
         \<lparr>device_info = \<lparr>path = ''/dev/sdb'', total_size = Size 30 GiB None\<rparr>\<rparr>] None False
        = ([FilesystemMenu [''btrfs'', ''ext4'', ''xfs'', ''f2fs''],
            CapacityMenu (Size 40 GiB None) (Size 20 GiB None)], Inr [])"
proof -
  let ?D = "[\<lparr>device_info = \<lparr>path = ''/dev/sda'', total_size = Size 10 GiB None\<rparr>\<rparr>,
             \<lparr>device_info = \<lparr>path = ''/dev/sdb'', total_size = Size 30 GiB None\<rparr>\<rparr>]"
  have l: "2 \<le> length ?D" by simp
  have s: "\<forall>d\<in>set ?D. to_bytes (total_size (device_info d)) < to_bytes (Size 40 GiB None)"
    by simp
  have h: "resolve_filesystem_type (\<lambda>c. ''ext4'') None False
        = ([FilesystemMenu [''btrfs'', ''ext4'', ''xfs'', ''f2fs'']], Inr Ext4)"
    by (simp add: resolve_filesystem_type_def ask_for_main_filesystem_format_def)
  from multi_disk_all_small_advisory[OF l s h, of True]
  have "suggest_multi_disk_layout True (\<lambda>c. ''ext4'') ?D None False
        = ([FilesystemMenu [''btrfs'', ''ext4'', ''xfs'', ''f2fs''],
            CapacityMenu (Size 40 GiB None) (Size 20 GiB None)], Inr [])"
    by (simp add: prod_eq_iff)
  with l s h show ?thesis by simp
qed

subsection \<open>Where the multi-disk planner raises\<close>

text \<open>
  C10. On a list of exactly one device of at least 40 GiB, that device is the home device,
  no device is left as a root candidate, and indexing the sorted delta list raises
  IndexError instead of returning the empty result. On a list of two or more devices, none
  listed twice, the planner returns a result; on the empty list it returns the empty
  result without any call to the prompting collaborator.
\<close>

theorem multi_disk_single_device_index_error:
  "(to_bytes (total_size (device_info d)) \<ge> to_bytes (Size 40 GiB None)
      \<and> resolve_filesystem_type run filesystem_type advanced_options = (log0, Inr fs)
     \<longrightarrow> find_home_device [d] = Some d
       \<and> devices_delta [d] (find_home_device [d]) = []
       \<and> suggest_multi_disk_layout uefi run [d] filesystem_type advanced_options
           = (log0, Inl IndexError))
   \<and> (2 \<le> length devices \<and> distinct (map (\<lambda>d. path (device_info d)) devices)
      \<and> resolve_filesystem_type run filesystem_type advanced_options = (log0, Inr fs)
     \<longrightarrow> (\<exists>mods. snd (suggest_multi_disk_layout uefi run devices filesystem_type advanced_options)
                  = Inr mods))
   \<and> suggest_multi_disk_layout uefi run [] filesystem_type advanced_options = ([], Inr [])"
proof (intro conjI impI)
  assume a: "to_bytes (total_size (device_info d)) \<ge> to_bytes (Size 40 GiB None)
      \<and> resolve_filesystem_type run filesystem_type advanced_options = (log0, Inr fs)"
  then show home: "find_home_device [d] = Some d"
    by (simp add: find_home_device_def Let_def Size_ge_def py_max_def)
  then show delta: "devices_delta [d] (find_home_device [d]) = []"
    by (simp add: devices_delta_def is_not_def same_device_def)
  then have "find_root_device [d] (find_home_device [d]) = Inl IndexError"
    by (simp add: find_root_device_def)
  from multi_no_root[OF _ _ this] a
  show "suggest_multi_disk_layout uefi run [d] filesystem_type advanced_options = (log0, Inl IndexError)"
    by simp
next
  assume a: "2 \<le> length devices \<and> distinct (map (\<lambda>d. path (device_info d)) devices)
      \<and> resolve_filesystem_type run filesystem_type advanced_options = (log0, Inr fs)"
  then have l: "2 \<le> length devices" and d: "distinct (map (\<lambda>d. path (device_info d)) devices)"
    and h: "resolve_filesystem_type run filesystem_type advanced_options = (log0, Inr fs)"
    by simp_all
  from l have ne: "devices \<noteq> []" by auto
  from find_root_device_total[OF l d] obtain r
    where "find_root_device devices (find_home_device devices) = Inr r" by blast
  from multi_disk_returns[OF ne h this]
  show "\<exists>mods. snd (suggest_multi_disk_layout uefi run devices filesystem_type advanced_options) = Inr mods"
    .
next
  show "suggest_multi_disk_layout uefi run [] filesystem_type advanced_options = ([], Inr [])"
    by (simp add: suggest_multi_disk_layout_def)
qed

theorem multi_disk_single_device_index_error_witness:
  "to_bytes (total_size (device_info
       \<lparr>device_info = \<lparr>path = ''/dev/sda'', total_size = Size 45 GiB None\<rparr>\<rparr>))
     \<ge> to_bytes (Size 40 GiB None)
   \<and> 2 \<le> length [\<lparr>device_info = \<lparr>path = ''/dev/sda'', total_size = Size 45 GiB None\<rparr>\<rparr>,
                   \<lparr>device_info = \<lparr>path = ''/dev/sdb'', total_size = Size 50 GiB None\<rparr>\<rparr>]
   \<and> distinct (map (\<lambda>d. path (device_info d))
                  [\<lparr>device_info = \<lparr>path = ''/dev/sda'', total_size = Size 45 GiB None\<rparr>\<rparr>,
                   \<lparr>device_info = \<lparr>path = ''/dev/sdb'', total_size = Size 50 GiB None\<rparr>\<rparr>])
   \<and> resolve_filesystem_type (\<lambda>c. ''no'') (Some Ext4) False = ([], Inr Ext4)
   \<and> suggest_multi_disk_layout False (\<lambda>c. ''no'')
        [\<lparr>device_info = \<lparr>path = ''/dev/sda'', total_size = Size 45 GiB None\<rparr>\<rparr>]
        (Some Ext4) False = ([], Inl IndexError)
   \<and> (\<exists>mods. snd (suggest_multi_disk_layout False (\<lambda>c. ''no'')
                  [\<lparr>device_info = \<lparr>path = ''/dev/sda'', total_size = Size 45 GiB None\<rparr>\<rparr>,
                   \<lparr>device_info = \<lparr>path = ''/dev/sdb'', total_size = Size 50 GiB None\<rparr>\<rparr>]
                  (Some Ext4) False) = Inr mods)"
proof -
  let ?d = "\<lparr>device_info = \<lparr>path = ''/dev/sda'', total_size = Size 45 GiB None\<rparr>\<rparr>"
  let ?D = "[?d, \<lparr>device_info = \<lparr>path = ''/dev/sdb'', total_size = Size 50 GiB None\<rparr>\<rparr>]"
  have b: "to_bytes (total_size (device_info ?d)) \<ge> to_bytes (Size 40 GiB None)" by simp
  have l: "2 \<le> length ?D" by simp
  have d: "distinct (map (\<lambda>d. path (device_info d)) ?D)" by simp
  have h: "resolve_filesystem_type (\<lambda>c. ''no'') (Some Ext4) False = ([], Inr Ext4)"
    by (simp add: resolve_filesystem_type_def)
  note T = multi_disk_single_device_index_error
             [of ?d "\<lambda>c. ''no''" "Some Ext4" False "[]" Ext4 False ?D]
  from T[THEN conjunct1, THEN mp, OF conjI[OF b h]]
  have one: "suggest_multi_disk_layout False (\<lambda>c. ''no'') [?d] (Some Ext4) False = ([], Inl IndexError)"
    by (elim conjE)
  from T[THEN conjunct2, THEN conjunct1, THEN mp, OF conjI[OF l conjI[OF d h]]]
  have two: "\<exists>mods. snd (suggest_multi_disk_layout False (\<lambda>c. ''no'') ?D (Some Ext4) False) = Inr mods" .
  from b l d h one two show ?thesis by blast
qed

subsection \<open>The result of the single-disk planner\<close>

lemma single_unfold:
  assumes "resolve_filesystem_type run filesystem_type advanced_options = (log0, Inr fs)"
  shows "suggest_single_disk_layout uefi run dev filesystem_type advanced_options separate_home =
    (let subvol = (fs = Btrfs \<and> run SubvolumesMenu = yes);
         compression = (fs = Btrfs \<and> run CompressionMenu = yes);
         big = (to_bytes (total_size (device_info dev)) \<ge> to_bytes (Size 40 GiB None));
         home = (\<not> subvol \<and> big \<and> (case separate_home of None \<Rightarrow> run SeparateHomeMenu = yes | Some b \<Rightarrow> b));
         opts = (if compression then [''compress=zstd''] else []);
         root = \<lparr>status = Create, type_p = Primary,
                 start = (if uefi then Size 513 MiB None else Size 206 MiB None),
                 length_p = (if home then py_min (total_size (device_info dev)) (Size 20 GiB None)
                             else Size 100 Percent (Some (total_size (device_info dev)))),
                 mountpoint = (if subvol then None else Some ''/''),
                 fs_type = fs, mount_options = opts, flags = [],
                 btrfs_subvols = (if subvol then default_subvolumes else [])\<rparr>;
         homep = \<lparr>status = Create, type_p = Primary,
                 start = length_p root,
                 length_p = Size 100 Percent (Some (total_size (device_info dev))),
                 mountpoint = Some ''/home'',
                 fs_type = fs, mount_options = opts, flags = [], btrfs_subvols = []\<rparr>
     in (log0 @ (if fs = Btrfs then [SubvolumesMenu, CompressionMenu] else [])
              @ (if \<not> subvol \<and> big \<and> separate_home = None then [SeparateHomeMenu] else []),
         Inr \<lparr>device = dev, wipe = True,
              partitions = boot_partition uefi # root # (if home then [homep] else [])\<rparr>))"
  using assms
  by (auto simp: suggest_single_disk_layout_def Let_def add_partition_def set_last_btrfs_subvols_def
      Size_ge_def Size_lt_def split: option.splits bool.splits)

lemma single_error:
  assumes "resolve_filesystem_type run filesystem_type advanced_options = (log0, Inl e)"
  shows "suggest_single_disk_layout uefi run dev filesystem_type advanced_options separate_home
         = (log0, Inl e)"
  using assms by (simp add: suggest_single_disk_layout_def)

lemma resolve_cases:
  obtains (ok) log0 fs where "resolve_filesystem_type run filesystem_type advanced_options = (log0, Inr fs)"
  | (err) log0 e where "resolve_filesystem_type run filesystem_type advanced_options = (log0, Inl e)"
  by (cases "resolve_filesystem_type run filesystem_type advanced_options") (metis sum.exhaust_sel)

subsection \<open>Separate home partition\<close>

text \<open>
  C2. For a device of at least 40 GiB, planned without subvolumes and with a separate home
  chosen (by the preference or by the answer to the question), the single-disk planner
  appends a home partition as third partition: its start is the length of the root
  partition (which lies before root start plus root length), its length is the Size
  100 Percent with the total size of the device as reference, and its mountpoint is /home.
\<close>

theorem single_disk_separate_home_partition:
  assumes "to_bytes (total_size (device_info dev)) \<ge> to_bytes (Size 40 GiB None)"
    and "resolve_filesystem_type run filesystem_type advanced_options = (log0, Inr fs)"
    and "\<not> (fs = Btrfs \<and> run SubvolumesMenu = yes)"
    and "separate_home = Some True \<or> (separate_home = None \<and> run SeparateHomeMenu = yes)"
  shows "\<exists>dm boot root home.
           snd (suggest_single_disk_layout uefi run dev filesystem_type advanced_options separate_home)
             = Inr dm
         \<and> partitions dm = [boot, root, home]
         \<and> start home = length_p root
         \<and> to_bytes (start home) < to_bytes (start root) + to_bytes (length_p root)
         \<and> length_p home = Size 100 Percent (Some (total_size (device_info dev)))
         \<and> to_bytes (length_p home) = to_bytes (total_size (device_info dev))
         \<and> mountpoint home = Some ''/home''"
  using assms
  by (auto simp: single_unfold[OF assms(2)] Let_def py_min_def Size_lt_def)

theorem single_disk_separate_home_partition_witness:
  "to_bytes (total_size (device_info
       \<lparr>device_info = \<lparr>path = ''/dev/sda'', total_size = Size 50 GiB None\<rparr>\<rparr>))
     \<ge> to_bytes (Size 40 GiB None)
   \<and> resolve_filesystem_type (\<lambda>c. ''yes'') (Some Ext4) False = ([], Inr Ext4)
   \<and> \<not> (Ext4 = Btrfs \<and> (\<lambda>c. ''yes'') SubvolumesMenu = yes)
   \<and> ((None :: bool option) = Some True \<or> ((None :: bool option) = None \<and> (\<lambda>c. ''yes'') SeparateHomeMenu = yes))
   \<and> (\<exists>dm boot root home.
         snd (suggest_single_disk_layout True (\<lambda>c. ''yes'')
                \<lparr>device_info = \<lparr>path = ''/dev/sda'', total_size = Size 50 GiB None\<rparr>\<rparr>
                (Some Ext4) False None) = Inr dm
       \<and> partitions dm = [boot, root, home]
       \<and> start home = Size 20 GiB None
       \<and> length_p home = Size 100 Percent (Some (Size 50 GiB None))
       \<and> mountpoint home = Some ''/home'')"
proof -
  let ?d = "\<lparr>device_info = \<lparr>path = ''/dev/sda'', total_size = Size 50 GiB None\<rparr>\<rparr>"
  have b: "to_bytes (total_size (device_info ?d)) \<ge> to_bytes (Size 40 GiB None)" by simp
  have h: "resolve_filesystem_type (\<lambda>c. ''yes'') (Some Ext4) False = ([], Inr Ext4)"
    by (simp add: resolve_filesystem_type_def)
  have s: "\<not> (Ext4 = Btrfs \<and> (\<lambda>c. ''yes'') SubvolumesMenu = yes)" by simp
  have c: "(None :: bool option) = Some True \<or> ((None :: bool option) = None \<and> (\<lambda>c. ''yes'') SeparateHomeMenu = yes)"
    by (simp add: yes_def)
  have ev: "snd (suggest_single_disk_layout True (\<lambda>c. ''yes'') ?d (Some Ext4) False None)
      = Inr \<lparr>device = ?d, wipe = True,
             partitions =
               [boot_partition True,
                \<lparr>status = Create, type_p = Primary, start = Size 513 MiB None,
                 length_p = Size 20 GiB None, mountpoint = Some ''/'', fs_type = Ext4,
                 mount_options = [], flags = [], btrfs_subvols = []\<rparr>,
                \<lparr>status = Create, type_p = Primary, start = Size 20 GiB None,
                 length_p = Size 100 Percent (Some (Size 50 GiB None)),
                 mountpoint = Some ''/home'', fs_type = Ext4,
                 mount_options = [], flags = [], btrfs_subvols = []\<rparr>]\<rparr>"
    by (simp add: suggest_single_disk_layout_def resolve_filesystem_type_def Let_def yes_def
          Size_ge_def Size_lt_def py_min_def add_partition_def)
  from single_disk_separate_home_partition[OF b h s c, of True]
  obtain dm boot root home where
    res: "snd (suggest_single_disk_layout True (\<lambda>c. ''yes'') ?d (Some Ext4) False None) = Inr dm"
    and parts: "partitions dm = [boot, root, home]"
    and st: "start home = length_p root"
    and len: "length_p home = Size 100 Percent (Some (total_size (device_info ?d)))"
    and mp: "mountpoint home = Some ''/home''"
    by (elim exE conjE)
  from res ev parts have "length_p root = Size 20 GiB None" by auto
  with st have "start home = Size 20 GiB None" by simp
  moreover from len have "length_p home = Size 100 Percent (Some (Size 50 GiB None))" by simp
  ultimately show ?thesis using b h s c res parts mp by blast
qed

subsection \<open>Root partition\<close>

text \<open>
  C3. In both planners the root partition, the second partition of the modification, starts
  at 513 MiB under UEFI and at 206 MiB under legacy BIOS. In the single-disk planner its
  length is the Size 100 Percent with the total size of the device as reference when
  subvolumes are used, or the device is below 40 GiB, or no separate home was chosen;
  otherwise it is the minimum of the total size of the device and 20 GiB.
\<close>

theorem root_partition_start_and_length:
  "(resolve_filesystem_type run filesystem_type advanced_options = (log0, Inr fs) \<longrightarrow>
      (\<exists>dm boot root rest.
          snd (suggest_single_disk_layout uefi run dev filesystem_type advanced_options separate_home)
            = Inr dm
        \<and> partitions dm = boot # root # rest
        \<and> start root = (if uefi then Size 513 MiB None else Size 206 MiB None)
        \<and> length_p root =
            (if (fs = Btrfs \<and> run SubvolumesMenu = yes)
                \<or> to_bytes (total_size (device_info dev)) < to_bytes (Size 40 GiB None)
                \<or> \<not> (separate_home = Some True
                       \<or> (separate_home = None \<and> run SeparateHomeMenu = yes))
             then Size 100 Percent (Some (total_size (device_info dev)))
             else py_min (total_size (device_info dev)) (Size 20 GiB None))
        \<and> to_bytes (py_min (total_size (device_info dev)) (Size 20 GiB None))
            = min (to_bytes (total_size (device_info dev))) (to_bytes (Size 20 GiB None))))
   \<and> (snd (suggest_multi_disk_layout uefi run devices filesystem_type advanced_options)
         = Inr [rm, hm] \<longrightarrow>
      (\<exists>boot root.
          partitions rm = [boot, root]
        \<and> start root = (if uefi then Size 513 MiB None else Size 206 MiB None)))"
proof (intro conjI impI)
  assume h: "resolve_filesystem_type run filesystem_type advanced_options = (log0, Inr fs)"
  have m: "to_bytes (py_min (total_size (device_info dev)) (Size 20 GiB None))
            = min (to_bytes (total_size (device_info dev))) (to_bytes (Size 20 GiB None))"
    by (simp add: py_min_def Size_lt_def min_def)
  show "\<exists>dm boot root rest.
          snd (suggest_single_disk_layout uefi run dev filesystem_type advanced_options separate_home)
            = Inr dm
        \<and> partitions dm = boot # root # rest
        \<and> start root = (if uefi then Size 513 MiB None else Size 206 MiB None)
        \<and> length_p root =
            (if (fs = Btrfs \<and> run SubvolumesMenu = yes)
                \<or> to_bytes (total_size (device_info dev)) < to_bytes (Size 40 GiB None)
                \<or> \<not> (separate_home = Some True
                       \<or> (separate_home = None \<and> run SeparateHomeMenu = yes))
             then Size 100 Percent (Some (total_size (device_info dev)))
             else py_min (total_size (device_info dev)) (Size 20 GiB None))
        \<and> to_bytes (py_min (total_size (device_info dev)) (Size 20 GiB None))
            = min (to_bytes (total_size (device_info dev))) (to_bytes (Size 20 GiB None))"
    unfolding single_unfold[OF h] Let_def m
    by (cases separate_home) (auto simp del: to_bytes.simps)
next
  assume r: "snd (suggest_multi_disk_layout uefi run devices filesystem_type advanced_options)
         = Inr [rm, hm]"
  from multi_result_cases[OF r] obtain l0 f h r' where
    "devices \<noteq> []" "resolve_filesystem_type run filesystem_type advanced_options = (l0, Inr f)"
    "find_home_device devices = Some h" "find_root_device devices (Some h) = Inr r'"
    by auto
  from multi_success[OF this, of uefi] r
  show "\<exists>boot root. partitions rm = [boot, root]
        \<and> start root = (if uefi then Size 513 MiB None else Size 206 MiB None)"
    by auto
qed

lemma single_result_resolved:
  assumes "snd (suggest_single_disk_layout uefi run dev filesystem_type advanced_options separate_home)
           = Inr dm"
  obtains log0 fs where
    "resolve_filesystem_type run filesystem_type advanced_options = (log0, Inr fs)"
proof (cases rule: resolve_cases[of run filesystem_type advanced_options])
  case (ok log0 fs)
  then show ?thesis by (rule that)
next
  case (err log0 e)
  from single_error[OF this] assms show ?thesis by simp
qed

lemma multi_result_pair:
  assumes "snd (suggest_multi_disk_layout uefi run devices filesystem_type advanced_options) = Inr mods"
    and "mods \<noteq> []"
  obtains log0 fs h r where
    "devices \<noteq> []"
    "resolve_filesystem_type run filesystem_type advanced_options = (log0, Inr fs)"
    "find_home_device devices = Some h"
    "find_root_device devices (Some h) = Inr r"
  using multi_result_cases[OF assms(1)] assms(2) by blast

lemma to_bytes_100_percent: "to_bytes (Size 100 Percent (Some t)) = to_bytes t"
  by simp

subsection \<open>Devices below the home threshold, single disk\<close>

text \<open>
  C4. For a device below 40 GiB the single-disk planner never asks the separate-home
  question and never produces a partition mounted at /home, whatever the separate-home
  preference; it produces the boot and the root partition, and the length of the root
  partition is the Size 100 Percent with the total size of the device as reference.
\<close>

theorem single_disk_small_device_no_home:
  assumes "to_bytes (total_size (device_info dev)) < to_bytes (Size 40 GiB None)"
  shows "SeparateHomeMenu \<notin> set (fst (suggest_single_disk_layout uefi run dev filesystem_type
                                      advanced_options separate_home))
       \<and> (\<forall>dm. snd (suggest_single_disk_layout uefi run dev filesystem_type
                      advanced_options separate_home) = Inr dm
              \<longrightarrow> (\<forall>p\<in>set (partitions dm). mountpoint p \<noteq> Some ''/home''))
       \<and> (\<forall>log0 fs. resolve_filesystem_type run filesystem_type advanced_options = (log0, Inr fs)
              \<longrightarrow> (\<exists>dm boot root.
                      snd (suggest_single_disk_layout uefi run dev filesystem_type
                             advanced_options separate_home) = Inr dm
                    \<and> partitions dm = [boot, root]
                    \<and> mountpoint boot = Some ''/boot''
                    \<and> length_p root = Size 100 Percent (Some (total_size (device_info dev)))
                    \<and> to_bytes (length_p root) = to_bytes (total_size (device_info dev))))"
proof (cases rule: resolve_cases[of run filesystem_type advanced_options])
  case (ok log0 fs)
  from resolve_filesystem_type_log[OF ok] have "SeparateHomeMenu \<notin> set log0" by auto
  with assms show ?thesis
    unfolding single_unfold[OF ok] Let_def ok
    by (auto simp: boot_partition_def to_bytes_100_percent simp del: to_bytes.simps)
next
  case (err log0 e)
  from resolve_filesystem_type_log[OF err] have "SeparateHomeMenu \<notin> set log0" by auto
  then show ?thesis
    unfolding single_error[OF err] err by simp
qed

subsection \<open>Boot partition of the planners\<close>

text \<open>
  C5. The boot partition starts at 1 MiB with length 512 MiB under UEFI, and at 3 MiB with
  length 203 MiB under legacy BIOS; its filesystem type is FAT32, its mountpoint /boot and
  its flags the boot flag. It is the first partition of the single-disk modification and
  of the root modification of the multi-disk planner, and no other partition of either
  planner is mounted at /boot.
\<close>

theorem boot_partition_sizing:
  "start (boot_partition True) = Size 1 MiB None
   \<and> length_p (boot_partition True) = Size 512 MiB None
   \<and> start (boot_partition False) = Size 3 MiB None
   \<and> length_p (boot_partition False) = Size 203 MiB None
   \<and> fs_type (boot_partition uefi) = Fat32
   \<and> mountpoint (boot_partition uefi) = Some ''/boot''
   \<and> flags (boot_partition uefi) = [Boot]
   \<and> (snd (suggest_single_disk_layout uefi run dev filesystem_type advanced_options separate_home)
         = Inr dm \<longrightarrow>
        (\<exists>rest. partitions dm = boot_partition uefi # rest
               \<and> (\<forall>p\<in>set rest. mountpoint p \<noteq> Some ''/boot'')))
   \<and> (snd (suggest_multi_disk_layout uefi run devices filesystem_type advanced_options)
         = Inr [rm, hm] \<longrightarrow>
        (\<exists>rest. partitions rm = boot_partition uefi # rest
               \<and> (\<forall>p\<in>set (rest @ partitions hm). mountpoint p \<noteq> Some ''/boot'')))"
proof -
  have fixed: "start (boot_partition True) = Size 1 MiB None
     \<and> length_p (boot_partition True) = Size 512 MiB None
     \<and> start (boot_partition False) = Size 3 MiB None
     \<and> length_p (boot_partition False) = Size 203 MiB None
     \<and> fs_type (boot_partition uefi) = Fat32
     \<and> mountpoint (boot_partition uefi) = Some ''/boot''
     \<and> flags (boot_partition uefi) = [Boot]"
    by (simp add: boot_partition_def)
  have single: "\<exists>rest. partitions dm = boot_partition uefi # rest
               \<and> (\<forall>p\<in>set rest. mountpoint p \<noteq> Some ''/boot'')"
    if r: "snd (suggest_single_disk_layout uefi run dev filesystem_type advanced_options separate_home)
         = Inr dm"
  proof -
    from single_result_resolved[OF r] obtain log0 fs where
      h: "resolve_filesystem_type run filesystem_type advanced_options = (log0, Inr fs)" .
    from r show ?thesis
      unfolding single_unfold[OF h] Let_def by auto
  qed
  have multi: "\<exists>rest. partitions rm = boot_partition uefi # rest
               \<and> (\<forall>p\<in>set (rest @ partitions hm). mountpoint p \<noteq> Some ''/boot'')"
    if r: "snd (suggest_multi_disk_layout uefi run devices filesystem_type advanced_options)
         = Inr [rm, hm]"
  proof -
    from multi_result_pair[OF r] obtain log0 fs h r' where
      "devices \<noteq> []" "resolve_filesystem_type run filesystem_type advanced_options = (log0, Inr fs)"
      "find_home_device devices = Some h" "find_root_device devices (Some h) = Inr r'"
      by blast
    from multi_success[OF this, of uefi] r show ?thesis by auto
  qed
  from fixed single multi show ?thesis by blast
qed

subsection \<open>Subvolumes\<close>

text \<open>
  C6. When subvolumes are selected (the filesystem type is Btrfs and the subvolume question
  is answered yes), the root partition of the single-disk planner carries exactly the five
  subvolumes @ at /, @home at /home, @log at /var/log, @pkg at /var/cache/pacman/pkg and
  @.snapshots at /.snapshots, and its own mountpoint is unset.
\<close>

theorem single_disk_subvolumes:
  assumes "resolve_filesystem_type run filesystem_type advanced_options = (log0, Inr Btrfs)"
    and "run SubvolumesMenu = yes"
  shows "\<exists>dm boot root.
           snd (suggest_single_disk_layout uefi run dev filesystem_type advanced_options separate_home)
             = Inr dm
         \<and> partitions dm = [boot, root]
         \<and> btrfs_subvols boot = []
         \<and> btrfs_subvols root =
             [SubvolumeModification ''@'' ''/'',
              SubvolumeModification ''@home'' ''/home'',
              SubvolumeModification ''@log'' ''/var/log'',
              SubvolumeModification ''@pkg'' ''/var/cache/pacman/pkg'',
              SubvolumeModification ''@.snapshots'' ''/.snapshots'']
         \<and> length (btrfs_subvols root) = 5
         \<and> mountpoint root = None"
  using assms(2)
  unfolding single_unfold[OF assms(1)] Let_def
  by (simp add: default_subvolumes_def boot_partition_def)

subsection \<open>Wipe flag\<close>

text \<open>
  C8. Every modification a planner returns has wipe set: the one modification of the
  single-disk planner, and the root and the home modification of the multi-disk planner
  (whose result is empty or has these two elements).
\<close>

theorem planners_always_wipe:
  "(snd (suggest_single_disk_layout uefi run dev filesystem_type advanced_options separate_home)
      = Inr dm \<longrightarrow> wipe dm)
   \<and> (snd (suggest_multi_disk_layout uefi run devices filesystem_type advanced_options)
        = Inr mods \<longrightarrow> (mods = [] \<or> length mods = 2) \<and> (\<forall>m\<in>set mods. wipe m))"
proof (rule conjI; rule impI)
  assume r: "snd (suggest_single_disk_layout uefi run dev filesystem_type advanced_options separate_home)
      = Inr dm"
  from single_result_resolved[OF r] obtain log0 fs where
    h: "resolve_filesystem_type run filesystem_type advanced_options = (log0, Inr fs)" .
  from r show "wipe dm" unfolding single_unfold[OF h] Let_def by auto
next
  assume r: "snd (suggest_multi_disk_layout uefi run devices filesystem_type advanced_options)
        = Inr mods"
  show "(mods = [] \<or> length mods = 2) \<and> (\<forall>m\<in>set mods. wipe m)"
  proof (cases "mods = []")
    case True
    then show ?thesis by simp
  next
    case False
    from multi_result_pair[OF r False] obtain log0 fs h r' where
      "devices \<noteq> []" "resolve_filesystem_type run filesystem_type advanced_options = (log0, Inr fs)"
      "find_home_device devices = Some h" "find_root_device devices (Some h) = Inr r'"
      by blast
    from multi_success[OF this, of uefi] r show ?thesis by auto
  qed
qed

subsection \<open>Mount options\<close>

text \<open>
  C9. Compression is requested when the filesystem type is Btrfs and the compression
  question is answered yes; the question is asked only for Btrfs. The single-disk planner
  creates the root partition, and the home partition when a separate home is used, with
  the mount options [compress=zstd] when compression was requested and with the empty list
  otherwise; the multi-disk planner does the same for the root partition of the root
  modification and the home partition of the home modification. The boot partition has no
  mount options, so every partition of a result not mounted at /boot follows the rule.
\<close>

theorem mount_options_follow_compression:
  assumes "resolve_filesystem_type run filesystem_type advanced_options = (log0, Inr fs)"
  shows "(CompressionMenu \<in> set (fst (suggest_single_disk_layout uefi run dev filesystem_type
                                        advanced_options separate_home)) \<longleftrightarrow> fs = Btrfs)
       \<and> (CompressionMenu \<in> set (fst (suggest_multi_disk_layout uefi run devices filesystem_type
                                        advanced_options)) \<longrightarrow> fs = Btrfs)
       \<and> (\<exists>dm boot root rest.
            snd (suggest_single_disk_layout uefi run dev filesystem_type advanced_options
                   separate_home) = Inr dm
          \<and> partitions dm = boot # root # rest
          \<and> mountpoint boot = Some ''/boot'' \<and> mount_options boot = []
          \<and> fs_type root = fs
          \<and> mount_options root = (if fs = Btrfs \<and> run CompressionMenu = yes then [''compress=zstd''] else [])
          \<and> (if \<not> (fs = Btrfs \<and> run SubvolumesMenu = yes)
                    \<and> to_bytes (total_size (device_info dev)) \<ge> to_bytes (Size 40 GiB None)
                    \<and> (separate_home = Some True
                         \<or> (separate_home = None \<and> run SeparateHomeMenu = yes))
               then \<exists>home. rest = [home] \<and> mountpoint home = Some ''/home''
                         \<and> fs_type home = fs
                         \<and> mount_options home = (if fs = Btrfs \<and> run CompressionMenu = yes then [''compress=zstd''] else [])
               else rest = []))
       \<and> (\<forall>mods. snd (suggest_multi_disk_layout uefi run devices filesystem_type
                         advanced_options) = Inr mods \<longrightarrow>
              mods = [] \<or>
              (\<exists>rm hm boot root home.
                  mods = [rm, hm]
                \<and> partitions rm = [boot, root] \<and> partitions hm = [home]
                \<and> mountpoint boot = Some ''/boot'' \<and> mount_options boot = []
                \<and> mountpoint root = Some ''/'' \<and> fs_type root = fs
                \<and> mount_options root = (if fs = Btrfs \<and> run CompressionMenu = yes then [''compress=zstd''] else [])
                \<and> mountpoint home = Some ''/home'' \<and> fs_type home = fs
                \<and> mount_options home = (if fs = Btrfs \<and> run CompressionMenu = yes then [''compress=zstd''] else [])
                \<and> (CompressionMenu \<in> set (fst (suggest_multi_disk_layout uefi run devices
                                                   filesystem_type advanced_options))
                     \<longleftrightarrow> fs = Btrfs)))
       \<and> (\<forall>dm. snd (suggest_single_disk_layout uefi run dev filesystem_type
                       advanced_options separate_home) = Inr dm \<longrightarrow>
              (\<forall>p\<in>set (partitions dm).
                 mount_options p =
                   (if mountpoint p \<noteq> Some ''/boot'' \<and> fs = Btrfs \<and> run CompressionMenu = yes
                    then [''compress=zstd''] else [])))
       \<and> (\<forall>mods. snd (suggest_multi_disk_layout uefi run devices filesystem_type
                         advanced_options) = Inr mods \<longrightarrow>
              (\<forall>dm\<in>set mods. \<forall>p\<in>set (partitions dm).
                 mount_options p =
                   (if mountpoint p \<noteq> Some ''/boot'' \<and> fs = Btrfs \<and> run CompressionMenu = yes
                    then [''compress=zstd''] else [])))"
proof -
  from resolve_filesystem_type_log[OF assms] have nolog: "CompressionMenu \<notin> set log0" by auto
  have s1: "CompressionMenu \<in> set (fst (suggest_single_disk_layout uefi run dev filesystem_type
                                        advanced_options separate_home)) \<longleftrightarrow> fs = Btrfs"
    using nolog unfolding single_unfold[OF assms] Let_def by auto
  have s2: "\<forall>dm. snd (suggest_single_disk_layout uefi run dev filesystem_type
                       advanced_options separate_home) = Inr dm \<longrightarrow>
              (\<forall>p\<in>set (partitions dm).
                 mount_options p =
                   (if mountpoint p \<noteq> Some ''/boot'' \<and> fs = Btrfs \<and> run CompressionMenu = yes
                    then [''compress=zstd''] else []))"
    unfolding single_unfold[OF assms] Let_def by (auto simp: boot_partition_def)
  have s3: "\<exists>dm boot root rest.
            snd (suggest_single_disk_layout uefi run dev filesystem_type advanced_options
                   separate_home) = Inr dm
          \<and> partitions dm = boot # root # rest
          \<and> mountpoint boot = Some ''/boot'' \<and> mount_options boot = []
          \<and> fs_type root = fs
          \<and> mount_options root = (if fs = Btrfs \<and> run CompressionMenu = yes then [''compress=zstd''] else [])
          \<and> (if \<not> (fs = Btrfs \<and> run SubvolumesMenu = yes)
                    \<and> to_bytes (total_size (device_info dev)) \<ge> to_bytes (Size 40 GiB None)
                    \<and> (separate_home = Some True
                         \<or> (separate_home = None \<and> run SeparateHomeMenu = yes))
               then \<exists>home. rest = [home] \<and> mountpoint home = Some ''/home''
                         \<and> fs_type home = fs
                         \<and> mount_options home = (if fs = Btrfs \<and> run CompressionMenu = yes then [''compress=zstd''] else [])
               else rest = [])"
    unfolding single_unfold[OF assms] Let_def
    by (cases separate_home) (auto simp: boot_partition_def simp del: to_bytes.simps)
  have m: "(CompressionMenu \<in> set (fst (suggest_multi_disk_layout uefi run devices filesystem_type
                                        advanced_options)) \<longrightarrow> fs = Btrfs)
       \<and> (\<forall>mods. snd (suggest_multi_disk_layout uefi run devices filesystem_type
                         advanced_options) = Inr mods \<longrightarrow>
              mods = [] \<or>
              (\<exists>rm hm boot root home.
                  mods = [rm, hm]
                \<and> partitions rm = [boot, root] \<and> partitions hm = [home]
                \<and> mountpoint boot = Some ''/boot'' \<and> mount_options boot = []
                \<and> mountpoint root = Some ''/'' \<and> fs_type root = fs
                \<and> mount_options root = (if fs = Btrfs \<and> run CompressionMenu = yes then [''compress=zstd''] else [])
                \<and> mountpoint home = Some ''/home'' \<and> fs_type home = fs
                \<and> mount_options home = (if fs = Btrfs \<and> run CompressionMenu = yes then [''compress=zstd''] else [])
                \<and> (CompressionMenu \<in> set (fst (suggest_multi_disk_layout uefi run devices
                                                   filesystem_type advanced_options))
                     \<longleftrightarrow> fs = Btrfs)))
       \<and> (\<forall>mods. snd (suggest_multi_disk_layout uefi run devices filesystem_type
                         advanced_options) = Inr mods \<longrightarrow>
              (\<forall>dm\<in>set mods. \<forall>p\<in>set (partitions dm).
                 mount_options p =
                   (if mountpoint p \<noteq> Some ''/boot'' \<and> fs = Btrfs \<and> run CompressionMenu = yes
                    then [''compress=zstd''] else [])))"
  proof (cases "devices = []")
    case True
    then show ?thesis by (simp add: suggest_multi_disk_layout_def)
  next
    case ne: False
    show ?thesis
    proof (cases "find_root_device devices (find_home_device devices)")
      case (Inl e)
      from multi_no_root[OF ne assms Inl, of uefi] nolog show ?thesis by simp
    next
      case (Inr r)
      show ?thesis
      proof (cases "find_home_device devices")
        case None
        with Inr have "find_root_device devices None = Inr r" by simp
        from multi_no_home[OF ne assms None this, of uefi] nolog show ?thesis by simp
      next
        case (Some h)
        with Inr have "find_root_device devices (Some h) = Inr r" by simp
        from multi_success[OF ne assms Some this, of uefi] nolog show ?thesis
          by (auto simp: boot_partition_def)
      qed
    qed
  qed
  from s1 s2 s3 m show ?thesis by blast
qed

subsection \<open>Planner runs on example devices\<close>

lemma single_returns:
  assumes "resolve_filesystem_type run filesystem_type advanced_options = (log0, Inr fs)"
  shows "\<exists>dm. snd (suggest_single_disk_layout uefi run dev filesystem_type advanced_options
                     separate_home) = Inr dm"
  unfolding single_unfold[OF assms] Let_def by simp

lemma multi_returns_pair:
  assumes "devices \<noteq> []"
    and "resolve_filesystem_type run filesystem_type advanced_options = (log0, Inr fs)"
    and "find_home_device devices = Some h"
    and "find_root_device devices (Some h) = Inr r"
  shows "\<exists>rm hm. snd (suggest_multi_disk_layout uefi run devices filesystem_type advanced_options)
                   = Inr [rm, hm]"
  unfolding multi_success[OF assms] by simp

lemma example_home_device:
  "find_home_device [\<lparr>device_info = \<lparr>path = ''/dev/sda'', total_size = Size 10 GiB None\<rparr>\<rparr>,
      \<lparr>device_info = \<lparr>path = ''/dev/sdb'', total_size = Size 45 GiB None\<rparr>\<rparr>,
      \<lparr>device_info = \<lparr>path = ''/dev/sdc'', total_size = Size 60 GiB None\<rparr>\<rparr>]
   = Some \<lparr>device_info = \<lparr>path = ''/dev/sdc'', total_size = Size 60 GiB None\<rparr>\<rparr>"
  by (simp add: find_home_device_def py_max_def Size_ge_def Size_gt_def)

lemma example_root_device:
  "find_root_device [\<lparr>device_info = \<lparr>path = ''/dev/sda'', total_size = Size 10 GiB None\<rparr>\<rparr>,
      \<lparr>device_info = \<lparr>path = ''/dev/sdb'', total_size = Size 45 GiB None\<rparr>\<rparr>,
      \<lparr>device_info = \<lparr>path = ''/dev/sdc'', total_size = Size 60 GiB None\<rparr>\<rparr>]
     (Some \<lparr>device_info = \<lparr>path = ''/dev/sdc'', total_size = Size 60 GiB None\<rparr>\<rparr>)
   = Inr \<lparr>device_info = \<lparr>path = ''/dev/sda'', total_size = Size 10 GiB None\<rparr>\<rparr>"
  by (simp add: find_root_device_def devices_delta_def dict_set_def is_not_def same_device_def
        Size_sub_def)

lemma example_multi_returns:
  assumes "resolve_filesystem_type run filesystem_type advanced_options = (log0, Inr fs)"
  shows "\<exists>rm hm. snd (suggest_multi_disk_layout uefi run [\<lparr>device_info = \<lparr>path = ''/dev/sda'', total_size = Size 10 GiB None\<rparr>\<rparr>,
      \<lparr>device_info = \<lparr>path = ''/dev/sdb'', total_size = Size 45 GiB None\<rparr>\<rparr>,
      \<lparr>device_info = \<lparr>path = ''/dev/sdc'', total_size = Size 60 GiB None\<rparr>\<rparr>] filesystem_type advanced_options)
                   = Inr [rm, hm]"
  by (rule multi_returns_pair[OF _ assms example_home_device example_root_device]) simp

theorem root_partition_start_and_length_witness:
  "resolve_filesystem_type (\<lambda>c. ''no'') (Some Ext4) False = ([], Inr Ext4)
   \<and> (\<exists>dm boot root rest.
         snd (suggest_single_disk_layout False (\<lambda>c. ''no'') \<lparr>device_info = \<lparr>path = ''/dev/sda'', total_size = Size 50 GiB None\<rparr>\<rparr> (Some Ext4) False (Some True))
           = Inr dm
       \<and> partitions dm = boot # root # rest
       \<and> start root = Size 206 MiB None
       \<and> length_p root = Size 20 GiB None)
   \<and> (\<exists>rm hm boot root.
         snd (suggest_multi_disk_layout False (\<lambda>c. ''no'') [\<lparr>device_info = \<lparr>path = ''/dev/sda'', total_size = Size 10 GiB None\<rparr>\<rparr>,
      \<lparr>device_info = \<lparr>path = ''/dev/sdb'', total_size = Size 45 GiB None\<rparr>\<rparr>,
      \<lparr>device_info = \<lparr>path = ''/dev/sdc'', total_size = Size 60 GiB None\<rparr>\<rparr>] (Some Ext4) False) = Inr [rm, hm]
       \<and> partitions rm = [boot, root]
       \<and> start root = Size 206 MiB None)"
proof -
  have h: "resolve_filesystem_type (\<lambda>c. ''no'') (Some Ext4) False = ([], Inr Ext4)"
    by (simp add: resolve_filesystem_type_def)
  from example_multi_returns[OF h, of False] obtain rm hm where
    ev: "snd (suggest_multi_disk_layout False (\<lambda>c. ''no'') [\<lparr>device_info = \<lparr>path = ''/dev/sda'', total_size = Size 10 GiB None\<rparr>\<rparr>,
      \<lparr>device_info = \<lparr>path = ''/dev/sdb'', total_size = Size 45 GiB None\<rparr>\<rparr>,
      \<lparr>device_info = \<lparr>path = ''/dev/sdc'', total_size = Size 60 GiB None\<rparr>\<rparr>] (Some Ext4) False) = Inr [rm, hm]"
    by blast
  note T = root_partition_start_and_length
             [where uefi = False and run = "\<lambda>c. ''no''" and filesystem_type = "Some Ext4"
                and advanced_options = False and ?log0.0 = "[]" and fs = Ext4
                and dev = "\<lparr>device_info = \<lparr>path = ''/dev/sda'', total_size = Size 50 GiB None\<rparr>\<rparr>" and separate_home = "Some True"
                and devices = "[\<lparr>device_info = \<lparr>path = ''/dev/sda'', total_size = Size 10 GiB None\<rparr>\<rparr>,
      \<lparr>device_info = \<lparr>path = ''/dev/sdb'', total_size = Size 45 GiB None\<rparr>\<rparr>,
      \<lparr>device_info = \<lparr>path = ''/dev/sdc'', total_size = Size 60 GiB None\<rparr>\<rparr>]" and rm = rm and hm = hm]
  from T[THEN conjunct1, THEN mp, OF h] obtain dm boot root rest where
    s1: "snd (suggest_single_disk_layout False (\<lambda>c. ''no'') \<lparr>device_info = \<lparr>path = ''/dev/sda'', total_size = Size 50 GiB None\<rparr>\<rparr> (Some Ext4) False (Some True))
           = Inr dm"
    and s2: "partitions dm = boot # root # rest"
    and s3: "start root = (if False then Size 513 MiB None else Size 206 MiB None)"
    and s4: "length_p root =
            (if (Ext4 = Btrfs \<and> (\<lambda>c. ''no'') SubvolumesMenu = yes)
                \<or> to_bytes (total_size (device_info \<lparr>device_info = \<lparr>path = ''/dev/sda'', total_size = Size 50 GiB None\<rparr>\<rparr>)) < to_bytes (Size 40 GiB None)
                \<or> \<not> (Some True = Some True
                       \<or> (Some True = None \<and> (\<lambda>c. ''no'') SeparateHomeMenu = yes))
             then Size 100 Percent (Some (total_size (device_info \<lparr>device_info = \<lparr>path = ''/dev/sda'', total_size = Size 50 GiB None\<rparr>\<rparr>)))
             else py_min (total_size (device_info \<lparr>device_info = \<lparr>path = ''/dev/sda'', total_size = Size 50 GiB None\<rparr>\<rparr>)) (Size 20 GiB None))"
    by (elim exE conjE)
  from s3 have s3': "start root = Size 206 MiB None" by simp
  from s4 have s4': "length_p root = Size 20 GiB None" by (simp add: py_min_def Size_lt_def)
  from T[THEN conjunct2, THEN mp, OF ev] obtain boot' root' where
    m1: "partitions rm = [boot', root']"
    and m2: "start root' = (if False then Size 513 MiB None else Size 206 MiB None)"
    by (elim exE conjE)
  from m2 have m2': "start root' = Size 206 MiB None" by simp
  from h s1 s2 s3' s4' ev m1 m2' show ?thesis by blast
qed

theorem single_disk_small_device_no_home_witness:
  "to_bytes (total_size (device_info \<lparr>device_info = \<lparr>path = ''/dev/sda'', total_size = Size 30 GiB None\<rparr>\<rparr>)) < to_bytes (Size 40 GiB None)
   \<and> resolve_filesystem_type (\<lambda>c. ''yes'') (Some Ext4) False = ([], Inr Ext4)
   \<and> SeparateHomeMenu \<notin> set (fst (suggest_single_disk_layout True (\<lambda>c. ''yes'') \<lparr>device_info = \<lparr>path = ''/dev/sda'', total_size = Size 30 GiB None\<rparr>\<rparr>
                                      (Some Ext4) False (Some True)))
   \<and> (\<exists>dm boot root.
         snd (suggest_single_disk_layout True (\<lambda>c. ''yes'') \<lparr>device_info = \<lparr>path = ''/dev/sda'', total_size = Size 30 GiB None\<rparr>\<rparr> (Some Ext4) False (Some True))
           = Inr dm
       \<and> partitions dm = [boot, root]
       \<and> (\<forall>p\<in>set (partitions dm). mountpoint p \<noteq> Some ''/home'')
       \<and> length_p root = Size 100 Percent (Some (Size 30 GiB None)))"
proof -
  have b: "to_bytes (total_size (device_info \<lparr>device_info = \<lparr>path = ''/dev/sda'', total_size = Size 30 GiB None\<rparr>\<rparr>)) < to_bytes (Size 40 GiB None)" by simp
  have h: "resolve_filesystem_type (\<lambda>c. ''yes'') (Some Ext4) False = ([], Inr Ext4)"
    by (simp add: resolve_filesystem_type_def)
  note T = single_disk_small_device_no_home
             [OF b, where uefi = True and run = "\<lambda>c. ''yes''" and filesystem_type = "Some Ext4"
                and advanced_options = False and separate_home = "Some True"]
  from T have t1: "SeparateHomeMenu \<notin> set (fst (suggest_single_disk_layout True (\<lambda>c. ''yes'') \<lparr>device_info = \<lparr>path = ''/dev/sda'', total_size = Size 30 GiB None\<rparr>\<rparr>
                                      (Some Ext4) False (Some True)))"
    by (rule conjunct1)
  from T[THEN conjunct2, THEN conjunct2, THEN spec, THEN spec, THEN mp, OF h]
  obtain dm boot root where
    s1: "snd (suggest_single_disk_layout True (\<lambda>c. ''yes'') \<lparr>device_info = \<lparr>path = ''/dev/sda'', total_size = Size 30 GiB None\<rparr>\<rparr> (Some Ext4) False (Some True))
           = Inr dm"
    and s2: "partitions dm = [boot, root]"
    and s3: "length_p root = Size 100 Percent (Some (total_size (device_info \<lparr>device_info = \<lparr>path = ''/dev/sda'', total_size = Size 30 GiB None\<rparr>\<rparr>)))"
    by (elim exE conjE)
  from T[THEN conjunct2, THEN conjunct1, THEN spec, THEN mp, OF s1]
  have s4: "\<forall>p\<in>set (partitions dm). mountpoint p \<noteq> Some ''/home''" .
  from s3 have s3': "length_p root = Size 100 Percent (Some (Size 30 GiB None))" by simp
  from b h t1 s1 s2 s3' s4 show ?thesis by blast
qed

theorem boot_partition_sizing_witness:
  "(\<exists>dm rest.
       snd (suggest_single_disk_layout True (\<lambda>c. ''no'') \<lparr>device_info = \<lparr>path = ''/dev/sda'', total_size = Size 50 GiB None\<rparr>\<rparr> (Some Ext4) False None) = Inr dm
     \<and> partitions dm = boot_partition True # rest
     \<and> (\<forall>p\<in>set rest. mountpoint p \<noteq> Some ''/boot''))
   \<and> (\<exists>rm hm rest.
       snd (suggest_multi_disk_layout True (\<lambda>c. ''no'') [\<lparr>device_info = \<lparr>path = ''/dev/sda'', total_size = Size 10 GiB None\<rparr>\<rparr>,
      \<lparr>device_info = \<lparr>path = ''/dev/sdb'', total_size = Size 45 GiB None\<rparr>\<rparr>,
      \<lparr>device_info = \<lparr>path = ''/dev/sdc'', total_size = Size 60 GiB None\<rparr>\<rparr>] (Some Ext4) False) = Inr [rm, hm]
     \<and> partitions rm = boot_partition True # rest
     \<and> (\<forall>p\<in>set (rest @ partitions hm). mountpoint p \<noteq> Some ''/boot''))
   \<and> start (boot_partition True) = Size 1 MiB None
   \<and> length_p (boot_partition True) = Size 512 MiB None"
proof -
  have h: "resolve_filesystem_type (\<lambda>c. ''no'') (Some Ext4) False = ([], Inr Ext4)"
    by (simp add: resolve_filesystem_type_def)
  from single_returns[OF h, of True "\<lparr>device_info = \<lparr>path = ''/dev/sda'', total_size = Size 50 GiB None\<rparr>\<rparr>" None] obtain dm where
    ev1: "snd (suggest_single_disk_layout True (\<lambda>c. ''no'') \<lparr>device_info = \<lparr>path = ''/dev/sda'', total_size = Size 50 GiB None\<rparr>\<rparr> (Some Ext4) False None) = Inr dm"
    by blast
  from example_multi_returns[OF h, of True] obtain rm hm where
    ev2: "snd (suggest_multi_disk_layout True (\<lambda>c. ''no'') [\<lparr>device_info = \<lparr>path = ''/dev/sda'', total_size = Size 10 GiB None\<rparr>\<rparr>,
      \<lparr>device_info = \<lparr>path = ''/dev/sdb'', total_size = Size 45 GiB None\<rparr>\<rparr>,
      \<lparr>device_info = \<lparr>path = ''/dev/sdc'', total_size = Size 60 GiB None\<rparr>\<rparr>] (Some Ext4) False) = Inr [rm, hm]"
    by blast
  note T = boot_partition_sizing
             [where uefi = True and run = "\<lambda>c. ''no''" and filesystem_type = "Some Ext4"
                and advanced_options = False and dev = "\<lparr>device_info = \<lparr>path = ''/dev/sda'', total_size = Size 50 GiB None\<rparr>\<rparr>" and separate_home = None
                and dm = dm and devices = "[\<lparr>device_info = \<lparr>path = ''/dev/sda'', total_size = Size 10 GiB None\<rparr>\<rparr>,
      \<lparr>device_info = \<lparr>path = ''/dev/sdb'', total_size = Size 45 GiB None\<rparr>\<rparr>,
      \<lparr>device_info = \<lparr>path = ''/dev/sdc'', total_size = Size 60 GiB None\<rparr>\<rparr>]" and rm = rm and hm = hm]
  from T have fixed: "start (boot_partition True) = Size 1 MiB None"
    "length_p (boot_partition True) = Size 512 MiB None"
    by blast+
  from T ev1 have c1: "\<exists>rest. partitions dm = boot_partition True # rest
               \<and> (\<forall>p\<in>set rest. mountpoint p \<noteq> Some ''/boot'')"
    by blast
  from T ev2 have c2: "\<exists>rest. partitions rm = boot_partition True # rest
               \<and> (\<forall>p\<in>set (rest @ partitions hm). mountpoint p \<noteq> Some ''/boot'')"
    by blast
  from ev1 ev2 c1 c2 fixed show ?thesis by blast
qed

theorem single_disk_subvolumes_witness:
  "resolve_filesystem_type (\<lambda>c. ''yes'') (Some Btrfs) False = ([], Inr Btrfs)
   \<and> (\<lambda>c. ''yes'') SubvolumesMenu = yes
   \<and> (\<exists>dm boot root.
         snd (suggest_single_disk_layout True (\<lambda>c. ''yes'') \<lparr>device_info = \<lparr>path = ''/dev/sda'', total_size = Size 50 GiB None\<rparr>\<rparr> (Some Btrfs) False None) = Inr dm
       \<and> partitions dm = [boot, root]
       \<and> length (btrfs_subvols root) = 5
       \<and> mountpoint root = None)"
proof -
  have h: "resolve_filesystem_type (\<lambda>c. ''yes'') (Some Btrfs) False = ([], Inr Btrfs)"
    by (simp add: resolve_filesystem_type_def)
  have y: "(\<lambda>c. ''yes'') SubvolumesMenu = yes" by (simp add: yes_def)
  from single_disk_subvolumes[OF h y, of True "\<lparr>device_info = \<lparr>path = ''/dev/sda'', total_size = Size 50 GiB None\<rparr>\<rparr>" None] h y
  show ?thesis by blast
qed

theorem planners_always_wipe_witness:
  "(\<exists>dm. snd (suggest_single_disk_layout True (\<lambda>c. ''no'') \<lparr>device_info = \<lparr>path = ''/dev/sda'', total_size = Size 50 GiB None\<rparr>\<rparr> (Some Ext4) False None) = Inr dm
        \<and> wipe dm)
   \<and> (\<exists>rm hm.
       snd (suggest_multi_disk_layout True (\<lambda>c. ''no'') [\<lparr>device_info = \<lparr>path = ''/dev/sda'', total_size = Size 10 GiB None\<rparr>\<rparr>,
      \<lparr>device_info = \<lparr>path = ''/dev/sdb'', total_size = Size 45 GiB None\<rparr>\<rparr>,
      \<lparr>device_info = \<lparr>path = ''/dev/sdc'', total_size = Size 60 GiB None\<rparr>\<rparr>] (Some Ext4) False) = Inr [rm, hm]
     \<and> wipe rm \<and> wipe hm)"
proof -
  have h: "resolve_filesystem_type (\<lambda>c. ''no'') (Some Ext4) False = ([], Inr Ext4)"
    by (simp add: resolve_filesystem_type_def)
  from single_returns[OF h, of True "\<lparr>device_info = \<lparr>path = ''/dev/sda'', total_size = Size 50 GiB None\<rparr>\<rparr>" None] obtain dm where
    ev1: "snd (suggest_single_disk_layout True (\<lambda>c. ''no'') \<lparr>device_info = \<lparr>path = ''/dev/sda'', total_size = Size 50 GiB None\<rparr>\<rparr> (Some Ext4) False None) = Inr dm"
    by blast
  from example_multi_returns[OF h, of True] obtain rm hm where
    ev2: "snd (suggest_multi_disk_layout True (\<lambda>c. ''no'') [\<lparr>device_info = \<lparr>path = ''/dev/sda'', total_size = Size 10 GiB None\<rparr>\<rparr>,
      \<lparr>device_info = \<lparr>path = ''/dev/sdb'', total_size = Size 45 GiB None\<rparr>\<rparr>,
      \<lparr>device_info = \<lparr>path = ''/dev/sdc'', total_size = Size 60 GiB None\<rparr>\<rparr>] (Some Ext4) False) = Inr [rm, hm]"
    by blast
  note T = planners_always_wipe
             [where uefi = True and run = "\<lambda>c. ''no''" and filesystem_type = "Some Ext4"
                and advanced_options = False and dev = "\<lparr>device_info = \<lparr>path = ''/dev/sda'', total_size = Size 50 GiB None\<rparr>\<rparr>" and separate_home = None
                and dm = dm and devices = "[\<lparr>device_info = \<lparr>path = ''/dev/sda'', total_size = Size 10 GiB None\<rparr>\<rparr>,
      \<lparr>device_info = \<lparr>path = ''/dev/sdb'', total_size = Size 45 GiB None\<rparr>\<rparr>,
      \<lparr>device_info = \<lparr>path = ''/dev/sdc'', total_size = Size 60 GiB None\<rparr>\<rparr>]" and mods = "[rm, hm]"]
  from T ev1 have c1: "wipe dm" by blast
  from T ev2 have c2: "wipe rm \<and> wipe hm" by simp
  from ev1 ev2 c1 c2 show ?thesis by blast
qed

theorem mount_options_follow_compression_witness:
  "resolve_filesystem_type (\<lambda>c. if c = SubvolumesMenu then ''no'' else ''yes'') (Some Btrfs) False = ([], Inr Btrfs)
   \<and> CompressionMenu \<in> set (fst (suggest_single_disk_layout True (\<lambda>c. if c = SubvolumesMenu then ''no'' else ''yes'') \<lparr>device_info = \<lparr>path = ''/dev/sda'', total_size = Size 50 GiB None\<rparr>\<rparr>
                                   (Some Btrfs) False None))
   \<and> (\<exists>dm boot root home.
         snd (suggest_single_disk_layout True (\<lambda>c. if c = SubvolumesMenu then ''no'' else ''yes'') \<lparr>device_info = \<lparr>path = ''/dev/sda'', total_size = Size 50 GiB None\<rparr>\<rparr> (Some Btrfs) False None) = Inr dm
       \<and> partitions dm = [boot, root, home]
       \<and> mount_options boot = []
       \<and> mount_options root = [''compress=zstd'']
       \<and> mountpoint home = Some ''/home''
       \<and> mount_options home = [''compress=zstd''])
   \<and> (\<exists>rm hm boot root home.
         snd (suggest_multi_disk_layout True (\<lambda>c. if c = SubvolumesMenu then ''no'' else ''yes'') [\<lparr>device_info = \<lparr>path = ''/dev/sda'', total_size = Size 10 GiB None\<rparr>\<rparr>,
      \<lparr>device_info = \<lparr>path = ''/dev/sdb'', total_size = Size 45 GiB None\<rparr>\<rparr>,
      \<lparr>device_info = \<lparr>path = ''/dev/sdc'', total_size = Size 60 GiB None\<rparr>\<rparr>] (Some Btrfs) False) = Inr [rm, hm]
       \<and> partitions rm = [boot, root] \<and> partitions hm = [home]
       \<and> mount_options boot = []
       \<and> mountpoint root = Some ''/''
       \<and> mount_options root = [''compress=zstd'']
       \<and> mountpoint home = Some ''/home''
       \<and> mount_options home = [''compress=zstd''])"
proof -
  let ?run = "(\<lambda>c. if c = SubvolumesMenu then ''no'' else ''yes'')"
  have h: "resolve_filesystem_type ?run (Some Btrfs) False = ([], Inr Btrfs)"
    by (simp add: resolve_filesystem_type_def)
  have y: "?run CompressionMenu = yes" by (simp add: yes_def)
  have n: "?run SubvolumesMenu \<noteq> yes" by (simp add: yes_def)
  have q: "?run SeparateHomeMenu = yes" by (simp add: yes_def)
  have b: "to_bytes (total_size (device_info \<lparr>device_info = \<lparr>path = ''/dev/sda'', total_size = Size 50 GiB None\<rparr>\<rparr>)) \<ge> to_bytes (Size 40 GiB None)" by simp
  from example_multi_returns[OF h, of True] obtain rm hm where
    ev2: "snd (suggest_multi_disk_layout True ?run [\<lparr>device_info = \<lparr>path = ''/dev/sda'', total_size = Size 10 GiB None\<rparr>\<rparr>,
      \<lparr>device_info = \<lparr>path = ''/dev/sdb'', total_size = Size 45 GiB None\<rparr>\<rparr>,
      \<lparr>device_info = \<lparr>path = ''/dev/sdc'', total_size = Size 60 GiB None\<rparr>\<rparr>] (Some Btrfs) False) = Inr [rm, hm]"
    by blast
  note T = mount_options_follow_compression
             [OF h, where uefi = True and dev = "\<lparr>device_info = \<lparr>path = ''/dev/sda'', total_size = Size 50 GiB None\<rparr>\<rparr>" and separate_home = None
                and devices = "[\<lparr>device_info = \<lparr>path = ''/dev/sda'', total_size = Size 10 GiB None\<rparr>\<rparr>,
      \<lparr>device_info = \<lparr>path = ''/dev/sdb'', total_size = Size 45 GiB None\<rparr>\<rparr>,
      \<lparr>device_info = \<lparr>path = ''/dev/sdc'', total_size = Size 60 GiB None\<rparr>\<rparr>]"]
  from T have c0: "CompressionMenu \<in> set (fst (suggest_single_disk_layout True ?run \<lparr>device_info = \<lparr>path = ''/dev/sda'', total_size = Size 50 GiB None\<rparr>\<rparr>
                                   (Some Btrfs) False None))"
    by blast
  from T[THEN conjunct2, THEN conjunct2, THEN conjunct1]
  obtain dm boot root rest where
    s1: "snd (suggest_single_disk_layout True ?run \<lparr>device_info = \<lparr>path = ''/dev/sda'', total_size = Size 50 GiB None\<rparr>\<rparr> (Some Btrfs) False None) = Inr dm"
    and s2: "partitions dm = boot # root # rest"
    and s3: "mount_options boot = []"
    and s4: "mount_options root = (if Btrfs = Btrfs \<and> ?run CompressionMenu = yes
                                   then [''compress=zstd''] else [])"
    and s5: "if \<not> (Btrfs = Btrfs \<and> ?run SubvolumesMenu = yes)
                \<and> to_bytes (total_size (device_info \<lparr>device_info = \<lparr>path = ''/dev/sda'', total_size = Size 50 GiB None\<rparr>\<rparr>)) \<ge> to_bytes (Size 40 GiB None)
                \<and> ((None :: bool option) = Some True
                     \<or> ((None :: bool option) = None \<and> ?run SeparateHomeMenu = yes))
             then \<exists>home. rest = [home] \<and> mountpoint home = Some ''/home''
                       \<and> fs_type home = Btrfs
                       \<and> mount_options home = (if Btrfs = Btrfs \<and> ?run CompressionMenu = yes
                                                then [''compress=zstd''] else [])
             else rest = []"
    by (elim exE conjE)
  from s4 y have s4': "mount_options root = [''compress=zstd'']" by simp
  from s5 n q b obtain home where
    s6: "rest = [home]" and s7: "mountpoint home = Some ''/home''"
    and s8: "mount_options home = (if Btrfs = Btrfs \<and> ?run CompressionMenu = yes
                                   then [''compress=zstd''] else [])"
    by (auto simp del: to_bytes.simps)
  from s8 y have s8': "mount_options home = [''compress=zstd'']" by simp
  from s2 s6 have s2': "partitions dm = [boot, root, home]" by simp
  from T[THEN conjunct2, THEN conjunct2, THEN conjunct2, THEN conjunct1, THEN spec, THEN mp, OF ev2]
  obtain boot' root' home' where
    m1: "partitions rm = [boot', root']" and m2: "partitions hm = [home']"
    and m3: "mount_options boot' = []"
    and m4: "mountpoint root' = Some ''/''"
    and m5: "mount_options root' = (if Btrfs = Btrfs \<and> ?run CompressionMenu = yes
                                    then [''compress=zstd''] else [])"
    and m6: "mountpoint home' = Some ''/home''"
    and m7: "mount_options home' = (if Btrfs = Btrfs \<and> ?run CompressionMenu = yes
                                    then [''compress=zstd''] else [])"
    by auto
  from m5 y have m5': "mount_options root' = [''compress=zstd'']" by simp
  from m7 y have m7': "mount_options home' = [''compress=zstd'']" by simp
  from h c0 s1 s2' s3 s4' s7 s8' ev2 m1 m2 m3 m4 m5' m6 m7' show ?thesis by blast
qed

end
